theory Spec2Isabelle
  imports Main "HOL-Library.Word"
begin

unbundle bit_operations_syntax

section \<open>Data model of \<open>engine/api/route_api.hpp\<close>\<close>

text \<open>
  \<open>RouteAPI\<close> builds the route response from the raw search result. The types it reads
  are declared in headers outside this file; each record below carries the fields that
  \<open>route_api.hpp\<close> touches, and the record extension stands for all the others.
  The enumerations \<open>TurnType\<close> and \<open>DirectionModifier\<close> and the coordinate type are type
  parameters (\<open>'t\<close>, \<open>'d\<close>, \<open>'c\<close>); doubles are the type parameter \<open>'r\<close>.
\<close>

type_synonym NodeID = "32 word"

type_synonym OSMNodeID = "64 word"

text \<open>\<open>SegmentID::id\<close>; the field is \<open>id'\<close> here, \<open>id\<close> being the identity function of HOL.\<close>

record SegmentID =
  id' :: NodeID

record PhantomNode =
  forward_segment_id :: SegmentID
  reverse_segment_id :: SegmentID

record 'p PhantomNodes =
  source_phantom :: "'p PhantomNode_scheme"
  target_phantom :: "'p PhantomNode_scheme"

text \<open>
  Modelled from the spec: \<open>RouteParameters\<close> is declared in
  \<open>engine/api/route_parameters.hpp\<close>, which is not among the sources. The spec gives the
  configuration as \<open>geometries\<close>, \<open>overview\<close>, \<open>steps\<close>, the legacy boolean \<open>annotations\<close>
  and \<open>annotations_type\<close>, a bit-flag set over Speed, Duration, Distance, Weight,
  Datasources and Nodes with the neutral value None and the value All that has every
  flag set. Each flag is one bit of a word, and \<open>has_flag\<close> is the \<open>&\<close> of the line 365
  comment: it tells whether the two flag sets share a bit.
\<close>

datatype GeometriesType = Polyline | Polyline6 | GeoJSON

datatype OverviewType = Simplified | Full | False'

type_synonym AnnotationsType = "32 word"

definition AnnotationsType_None :: AnnotationsType where
  "AnnotationsType_None = 0"

definition Duration :: AnnotationsType where
  "Duration = 1"

definition Nodes :: AnnotationsType where
  "Nodes = 2"

definition Distance :: AnnotationsType where
  "Distance = 4"

definition Weight :: AnnotationsType where
  "Weight = 8"

definition Datasources :: AnnotationsType where
  "Datasources = 16"

definition Speed :: AnnotationsType where
  "Speed = 32"

definition All :: AnnotationsType where
  "All = Duration OR Nodes OR Distance OR Weight OR Datasources OR Speed"

definition has_flag :: "AnnotationsType \<Rightarrow> AnnotationsType \<Rightarrow> bool" where
  "has_flag lhs rhs = (lhs AND rhs \<noteq> 0)"

record RouteParameters =
  geometries :: GeometriesType
  overview :: OverviewType
  steps :: bool
  annotations :: bool
  annotations_type :: AnnotationsType

record ('t, 'd) TurnInstruction =
  type :: 't
  direction_modifier :: 'd

record ('t, 'd) StepManeuver =
  instruction :: "('t, 'd) TurnInstruction"

record ('t, 'd, 'm) RouteStep =
  from_id :: NodeID
  geometry_begin :: nat
  geometry_end :: nat
  maneuver :: "('t, 'd, 'm) StepManeuver_scheme"

record ('t, 'd, 'm, 's) RouteLeg =
  steps :: "('t, 'd, 'm, 's) RouteStep_scheme list"

record 'r Annotation =
  distance :: 'r
  duration :: 'r
  weight :: 'r
  datasource :: "8 word"

record ('c, 'r) LegGeometry =
  locations :: "'c list"
  annotations :: "'r Annotation list"
  osm_node_ids :: "OSMNodeID list"

record ('t, 'd) ManeuverOverride =
  via_node_id :: NodeID
  to_node :: NodeID
  override_type :: 't
  direction :: 'd

text \<open>
  The data facade, as far as \<open>RouteAPI\<close> queries it, together with the two enumeration
  constants the override resolver compares against: \<open>TurnType::Invalid\<close> and
  \<open>DirectionModifier::MaxDirectionModifier\<close>.
\<close>

record ('t, 'd, 'o, 'c) BaseDataFacade =
  GetOverridesThatStartAt :: "NodeID \<Rightarrow> ('t, 'd, 'o) ManeuverOverride_scheme list"
  GetCoordinateOfNode :: "NodeID \<Rightarrow> 'c"
  GetWeightName :: string
  Invalid :: 't
  MaxDirectionModifier :: 'd

text \<open>
  What stops a call: a \<open>BOOST_ASSERT\<close> that fails, or an access outside a vector, where
  the behaviour of the source is undefined and the model stops.
\<close>

datatype error =
  AssertionFailed
  | OutOfRange

section \<open>The maneuver override resolver (\<open>MakeRoute\<close>, lines 208 to 294)\<close>

text \<open>
  \<open>std::find_if\<close> on the steps \<open>first, first + 1, ..., last - 1\<close>: the index of the first
  step that satisfies \<open>P\<close>, or \<open>lst\<close> (the iterator \<open>last\<close>) when there is none. The list of indices
  is the iterator range.
\<close>

primrec find_if :: "('a \<Rightarrow> bool) \<Rightarrow> 'a list \<Rightarrow> nat list \<Rightarrow> nat \<Rightarrow> nat" where
  "find_if P xs [] lst = lst"
| "find_if P xs (j # js) lst = (if P (xs ! j) then j else find_if P xs js lst)"

text \<open>
  The iterator range \<open>locations.begin() + geometry_begin\<close> to
  \<open>locations.begin() + geometry_end\<close> (lines 255 to 258, 329, 330). The source adds
  both indices unchecked; a range that is not inside the vector is \<open>OutOfRange\<close>.
\<close>

definition geometry_slice :: "'c list \<Rightarrow> nat \<Rightarrow> nat \<Rightarrow> error + 'c list" where
  "geometry_slice locs b e =
     (if b \<le> e \<and> e \<le> length locs then Inr (take (e - b) (drop b locs)) else Inl OutOfRange)"

text \<open>Lines 259 to 262: is the coordinate among the locations of the range?\<close>

definition via_match :: "'c list \<Rightarrow> nat \<Rightarrow> nat \<Rightarrow> 'c \<Rightarrow> error + bool" where
  "via_match locs b e c =
     (case geometry_slice locs b e of
        Inl err \<Rightarrow> Inl err
      | Inr step_locs \<Rightarrow> Inr (c \<in> set step_locs))"

text \<open>
  Lines 274 to 286: the step after the one whose geometry holds the via node gets the
  override's type, and its direction unless that is \<open>MaxDirectionModifier\<close>; past the
  end of the leg nothing is written.
\<close>

definition write_instruction ::
  "('t, 'd, 'o, 'c, 'f) BaseDataFacade_scheme \<Rightarrow> ('t, 'd, 'o) ManeuverOverride_scheme \<Rightarrow>
   ('t, 'd, 'i) TurnInstruction_scheme \<Rightarrow> ('t, 'd, 'i) TurnInstruction_scheme" where
  "write_instruction facade maneuver_relation ins =
     (let ins1 = ins\<lparr>type := override_type maneuver_relation\<rparr>
      in if direction maneuver_relation \<noteq> MaxDirectionModifier facade
         then ins1\<lparr>direction_modifier := direction maneuver_relation\<rparr>
         else ins1)"

definition write_step ::
  "('t, 'd, 'o, 'c, 'f) BaseDataFacade_scheme \<Rightarrow> ('t, 'd, 'o) ManeuverOverride_scheme \<Rightarrow>
   ('t, 'd, 'm, 's) RouteStep_scheme \<Rightarrow> ('t, 'd, 'm, 's) RouteStep_scheme" where
  "write_step facade maneuver_relation step =
     step\<lparr>maneuver := (maneuver step)
            \<lparr>instruction := write_instruction facade maneuver_relation
                               (instruction (maneuver step))\<rparr>\<rparr>"

text \<open>
  Lines 250 to 288, the loop of \<open>current_step_copy\<close> over the lookahead window. The
  result is the steps and the flag \<open>done\<close>. Line 267 asserts that the override's type
  is not \<open>Invalid\<close>.
\<close>

primrec via_loop ::
  "('t, 'd, 'o, 'c, 'f) BaseDataFacade_scheme \<Rightarrow> 'c list \<Rightarrow> ('t, 'd, 'o) ManeuverOverride_scheme \<Rightarrow>
   nat list \<Rightarrow> ('t, 'd, 'm, 's) RouteStep_scheme list \<Rightarrow>
   error + (('t, 'd, 'm, 's) RouteStep_scheme list \<times> bool)" where
  "via_loop facade locs maneuver_relation [] leg_steps = Inr (leg_steps, False)"
| "via_loop facade locs maneuver_relation (current_step_copy # rest) leg_steps =
     (let via_node_coords = GetCoordinateOfNode facade (via_node_id maneuver_relation)
      in case via_match locs (geometry_begin (leg_steps ! current_step_copy))
                (geometry_end (leg_steps ! current_step_copy)) via_node_coords of
           Inl e \<Rightarrow> Inl e
         | Inr False \<Rightarrow> via_loop facade locs maneuver_relation rest leg_steps
         | Inr True \<Rightarrow>
             if override_type maneuver_relation = Invalid facade then Inl AssertionFailed
             else if Suc current_step_copy < length leg_steps
             then Inr (leg_steps[Suc current_step_copy :=
                         write_step facade maneuver_relation (leg_steps ! Suc current_step_copy)],
                       True)
             else Inr (leg_steps, True))"

text \<open>
  Lines 227 to 246: the lookahead window and the test that lets an override through to
  the search for its via node. \<open>current_step\<close> is the index of \<open>current_step_it\<close>, always
  below the number of steps.
\<close>

definition MAX_MANEUVER_DISTANCE :: "nat \<Rightarrow> 'a list \<Rightarrow> nat" where
  "MAX_MANEUVER_DISTANCE current_step leg_steps = min 5 (length leg_steps - current_step)"

definition max_steps_fwd :: "nat \<Rightarrow> 'a list \<Rightarrow> nat" where
  "max_steps_fwd current_step leg_steps =
     current_step + MAX_MANEUVER_DISTANCE current_step leg_steps"

definition to_match ::
  "('t, 'd, 'o) ManeuverOverride_scheme \<Rightarrow> nat \<Rightarrow> ('t, 'd, 'm, 's) RouteStep_scheme list \<Rightarrow> nat" where
  "to_match maneuver_relation current_step leg_steps =
     find_if (\<lambda>step. from_id step = to_node maneuver_relation) leg_steps
       [current_step ..< max_steps_fwd current_step leg_steps]
       (max_steps_fwd current_step leg_steps)"

definition target_segment_id :: "('p, 'q) PhantomNodes_scheme \<Rightarrow> bool \<Rightarrow> NodeID" where
  "target_segment_id phantoms reversed_target =
     (if reversed_target then id' (reverse_segment_id (target_phantom phantoms))
      else id' (forward_segment_id (target_phantom phantoms)))"

text \<open>The condition of lines 234 to 245 under which the override is left (\<open>continue\<close>).\<close>

definition override_skipped ::
  "('p, 'q) PhantomNodes_scheme \<Rightarrow> bool \<Rightarrow> ('t, 'd, 'o) ManeuverOverride_scheme \<Rightarrow> nat \<Rightarrow>
   ('t, 'd, 'm, 's) RouteStep_scheme list \<Rightarrow> bool" where
  "override_skipped phantoms reversed_target maneuver_relation current_step leg_steps =
     (to_match maneuver_relation current_step leg_steps = max_steps_fwd current_step leg_steps \<and>
      (MAX_MANEUVER_DISTANCE current_step leg_steps \<ge> 5 \<or>
       target_segment_id phantoms reversed_target \<noteq> to_node maneuver_relation))"

text \<open>Lines 224 to 290: the body of the loop over the overrides, for one override.\<close>

definition override_body ::
  "('t, 'd, 'o, 'c, 'f) BaseDataFacade_scheme \<Rightarrow> ('p, 'q) PhantomNodes_scheme \<Rightarrow> bool \<Rightarrow> 'c list \<Rightarrow> nat \<Rightarrow>
   ('t, 'd, 'o) ManeuverOverride_scheme \<Rightarrow> ('t, 'd, 'm, 's) RouteStep_scheme list \<Rightarrow>
   error + (('t, 'd, 'm, 's) RouteStep_scheme list \<times> bool)" where
  "override_body facade phantoms reversed_target locs current_step maneuver_relation leg_steps =
     (if override_skipped phantoms reversed_target maneuver_relation current_step leg_steps
      then Inr (leg_steps, False)
      else via_loop facade locs maneuver_relation
             [current_step ..< max_steps_fwd current_step leg_steps] leg_steps)"

text \<open>Lines 223 to 291: the loop over the overrides of one step; it ends when \<open>done\<close> is set.\<close>

primrec overrides_loop ::
  "('t, 'd, 'o, 'c, 'f) BaseDataFacade_scheme \<Rightarrow> ('p, 'q) PhantomNodes_scheme \<Rightarrow> bool \<Rightarrow> 'c list \<Rightarrow> nat \<Rightarrow>
   ('t, 'd, 'o) ManeuverOverride_scheme list \<Rightarrow> ('t, 'd, 'm, 's) RouteStep_scheme list \<Rightarrow>
   error + (('t, 'd, 'm, 's) RouteStep_scheme list \<times> bool)" where
  "overrides_loop facade phantoms reversed_target locs current_step [] leg_steps =
     Inr (leg_steps, False)"
| "overrides_loop facade phantoms reversed_target locs current_step (maneuver_relation # rest) leg_steps =
     (case override_body facade phantoms reversed_target locs current_step maneuver_relation leg_steps of
        Inl e \<Rightarrow> Inl e
      | Inr (leg_steps', done) \<Rightarrow>
          if done then Inr (leg_steps', True)
          else overrides_loop facade phantoms reversed_target locs current_step rest leg_steps')"

text \<open>
  Lines 210 to 294: the loop of \<open>current_step_it\<close> over the steps of the leg, here over
  their indices; it ends when \<open>done\<close> is set.
\<close>

primrec steps_loop ::
  "('t, 'd, 'o, 'c, 'f) BaseDataFacade_scheme \<Rightarrow> ('p, 'q) PhantomNodes_scheme \<Rightarrow> bool \<Rightarrow> 'c list \<Rightarrow>
   nat list \<Rightarrow> ('t, 'd, 'm, 's) RouteStep_scheme list \<Rightarrow>
   error + (('t, 'd, 'm, 's) RouteStep_scheme list \<times> bool)" where
  "steps_loop facade phantoms reversed_target locs [] leg_steps = Inr (leg_steps, False)"
| "steps_loop facade phantoms reversed_target locs (current_step # rest) leg_steps =
     (let overrides = GetOverridesThatStartAt facade (from_id (leg_steps ! current_step))
      in if overrides = [] then steps_loop facade phantoms reversed_target locs rest leg_steps
         else case overrides_loop facade phantoms reversed_target locs current_step overrides
                     leg_steps of
                Inl e \<Rightarrow> Inl e
              | Inr (leg_steps', done) \<Rightarrow>
                  if done then Inr (leg_steps', True)
                  else steps_loop facade phantoms reversed_target locs rest leg_steps')"

text \<open>
  The resolver on the two locals it works on, \<open>leg\<close> and \<open>leg_geometry\<close>, returning both.
\<close>

definition apply_overrides ::
  "('t, 'd, 'o, 'c, 'f) BaseDataFacade_scheme \<Rightarrow> ('p, 'q) PhantomNodes_scheme \<Rightarrow> bool \<Rightarrow>
   ('t, 'd, 'm, 's, 'l) RouteLeg_scheme \<times> ('c, 'r, 'g) LegGeometry_scheme \<Rightarrow>
   error + (('t, 'd, 'm, 's, 'l) RouteLeg_scheme \<times> ('c, 'r, 'g) LegGeometry_scheme)" where
  "apply_overrides facade phantoms reversed_target st =
     (case st of (leg, leg_geometry) \<Rightarrow>
        (case steps_loop facade phantoms reversed_target (locations leg_geometry)
                [0 ..< length (steps leg)] (steps leg) of
           Inl e \<Rightarrow> Inl e
         | Inr (leg_steps', done) \<Rightarrow> Inr (leg\<lparr>steps := leg_steps'\<rparr>, leg_geometry)))"

section \<open>JSON values and the functions \<open>MakeRoute\<close> calls\<close>

text \<open>
  \<open>util::json::Value\<close>; an object maps its keys to values. \<open>JTrue\<close>, \<open>JFalse\<close> and
  \<open>JNull\<close> are \<open>util::json::True\<close>, \<open>False\<close> and \<open>Null\<close>.
\<close>

datatype 'r Value =
  String string
  | Number 'r
  | Object "string \<Rightarrow> 'r Value option"
  | Array "'r Value list"
  | JTrue
  | JFalse
  | JNull

type_synonym 'r Object = "string \<Rightarrow> 'r Value option"

text \<open>
  The functions of \<open>engine/guidance\<close>, \<open>engine/api/json_factory.hpp\<close> and \<open>BaseAPI\<close> that
  \<open>RouteAPI\<close> calls are not among the sources: they are the fields of this record, and
  every theorem holds for each choice of them. \<open>trimShortSegments\<close> changes both of its
  arguments and returns both here. \<open>speed_value distance duration\<close> is the double
  \<open>clamp_float(std::round(distance / duration * 10.) / 10.)\<close> of lines 370 and 371,
  \<open>double_of_datasource\<close> and \<open>double_of_uint64\<close> are the conversions of a datasource
  identifier and of a node identifier to the double of a JSON number.
\<close>

record ('t, 'd, 'o, 'c, 'r, 'm, 's, 'l, 'g, 'p, 'q, 'pd, 'rt, 'f) Collaborators =
  assembleGeometry ::
    "('t, 'd, 'o, 'c, 'f) BaseDataFacade_scheme \<Rightarrow> 'pd list \<Rightarrow> 'p PhantomNode_scheme \<Rightarrow>
     'p PhantomNode_scheme \<Rightarrow> bool \<Rightarrow> bool \<Rightarrow> ('c, 'r, 'g) LegGeometry_scheme"
  assembleLeg ::
    "('t, 'd, 'o, 'c, 'f) BaseDataFacade_scheme \<Rightarrow> 'pd list \<Rightarrow> ('c, 'r, 'g) LegGeometry_scheme \<Rightarrow>
     'p PhantomNode_scheme \<Rightarrow> 'p PhantomNode_scheme \<Rightarrow> bool \<Rightarrow> bool \<Rightarrow>
     ('t, 'd, 'm, 's, 'l) RouteLeg_scheme"
  assembleSteps ::
    "('t, 'd, 'o, 'c, 'f) BaseDataFacade_scheme \<Rightarrow> 'pd list \<Rightarrow> ('c, 'r, 'g) LegGeometry_scheme \<Rightarrow>
     'p PhantomNode_scheme \<Rightarrow> 'p PhantomNode_scheme \<Rightarrow> bool \<Rightarrow> bool \<Rightarrow>
     ('t, 'd, 'm, 's) RouteStep_scheme list"
  trimShortSegments ::
    "('t, 'd, 'm, 's) RouteStep_scheme list \<times> ('c, 'r, 'g) LegGeometry_scheme \<Rightarrow>
     ('t, 'd, 'm, 's) RouteStep_scheme list \<times> ('c, 'r, 'g) LegGeometry_scheme"
  handleRoundabouts ::
    "('t, 'd, 'm, 's) RouteStep_scheme list \<Rightarrow> ('t, 'd, 'm, 's) RouteStep_scheme list"
  collapseTurnInstructions ::
    "('t, 'd, 'm, 's) RouteStep_scheme list \<Rightarrow> ('t, 'd, 'm, 's) RouteStep_scheme list"
  anticipateLaneChange ::
    "('t, 'd, 'm, 's) RouteStep_scheme list \<Rightarrow> ('t, 'd, 'm, 's) RouteStep_scheme list"
  buildIntersections ::
    "('t, 'd, 'm, 's) RouteStep_scheme list \<Rightarrow> ('t, 'd, 'm, 's) RouteStep_scheme list"
  suppressShortNameSegments ::
    "('t, 'd, 'm, 's) RouteStep_scheme list \<Rightarrow> ('t, 'd, 'm, 's) RouteStep_scheme list"
  assignRelativeLocations ::
    "('t, 'd, 'm, 's) RouteStep_scheme list \<Rightarrow> ('c, 'r, 'g) LegGeometry_scheme \<Rightarrow>
     'p PhantomNode_scheme \<Rightarrow> 'p PhantomNode_scheme \<Rightarrow> ('t, 'd, 'm, 's) RouteStep_scheme list"
  resyncGeometry ::
    "('c, 'r, 'g) LegGeometry_scheme \<Rightarrow> ('t, 'd, 'm, 's) RouteStep_scheme list \<Rightarrow>
     ('c, 'r, 'g) LegGeometry_scheme"
  assembleRoute :: "('t, 'd, 'm, 's, 'l) RouteLeg_scheme list \<Rightarrow> 'rt"
  assembleOverview :: "('c, 'r, 'g) LegGeometry_scheme list \<Rightarrow> bool \<Rightarrow> 'c list"
  makePolyline_100000 :: "'c list \<Rightarrow> 'r Value"
  makePolyline_1000000 :: "'c list \<Rightarrow> 'r Value"
  makeGeoJSONGeometry :: "'c list \<Rightarrow> 'r Value"
  makeRouteLegs ::
    "('t, 'd, 'm, 's, 'l) RouteLeg_scheme list \<Rightarrow> 'r Value list \<Rightarrow> 'r Object list \<Rightarrow> 'r Value"
  makeRoute :: "'rt \<Rightarrow> 'r Value \<Rightarrow> 'r Value option \<Rightarrow> string \<Rightarrow> 'r Object"
  MakeWaypoints :: "('p, 'q) PhantomNodes_scheme list \<Rightarrow> 'r Value"
  speed_value :: "'r \<Rightarrow> 'r \<Rightarrow> 'r"
  double_of_datasource :: "8 word \<Rightarrow> 'r"
  double_of_uint64 :: "64 word \<Rightarrow> 'r"

section \<open>\<open>MakeRoute\<close> (lines 100 to 426)\<close>

text \<open>
  Lines 134 to 295, the body of the loop over the legs for one leg: the geometry and the
  leg are assembled and, when steps are requested, the steps are assembled, taken through
  the post-processing of lines 196 to 206 and then through the override resolver. The
  result is the pair of \<open>leg\<close> and \<open>leg_geometry\<close> that lines 297 and 298 store.
\<close>

definition post_process ::
  "('t, 'd, 'o, 'c, 'r, 'm, 's, 'l, 'g, 'p, 'q, 'pd, 'rt, 'f, 'x) Collaborators_scheme \<Rightarrow>
   ('p, 'q) PhantomNodes_scheme \<Rightarrow>
   ('t, 'd, 'm, 's) RouteStep_scheme list \<Rightarrow>
   ('t, 'd, 'm, 's, 'l) RouteLeg_scheme \<times> ('c, 'r, 'g) LegGeometry_scheme \<Rightarrow>
   ('t, 'd, 'm, 's, 'l) RouteLeg_scheme \<times> ('c, 'r, 'g) LegGeometry_scheme" where
  "post_process ext phantoms steps0 st =
     (case st of (leg, leg_geometry) \<Rightarrow>
        (case trimShortSegments ext (steps0, leg_geometry) of (steps1, leg_geometry1) \<Rightarrow>
           (let leg1 = leg\<lparr>steps := handleRoundabouts ext steps1\<rparr>;
                leg2 = leg1\<lparr>steps := collapseTurnInstructions ext (steps leg1)\<rparr>;
                leg3 = leg2\<lparr>steps := anticipateLaneChange ext (steps leg2)\<rparr>;
                leg4 = leg3\<lparr>steps := buildIntersections ext (steps leg3)\<rparr>;
                leg5 = leg4\<lparr>steps := suppressShortNameSegments ext (steps leg4)\<rparr>;
                leg6 = leg5\<lparr>steps := assignRelativeLocations ext (steps leg5) leg_geometry1
                                         (source_phantom phantoms) (target_phantom phantoms)\<rparr>;
                leg_geometry2 = resyncGeometry ext leg_geometry1 (steps leg6)
            in (leg6, leg_geometry2))))"

definition MakeRoute_leg ::
  "('t, 'd, 'o, 'c, 'r, 'm, 's, 'l, 'g, 'p, 'q, 'pd, 'rt, 'f, 'x) Collaborators_scheme \<Rightarrow>
   ('t, 'd, 'o, 'c, 'f) BaseDataFacade_scheme \<Rightarrow> 'y RouteParameters_scheme \<Rightarrow>
   ('p, 'q) PhantomNodes_scheme \<Rightarrow> 'pd list \<Rightarrow> bool \<Rightarrow> bool \<Rightarrow>
   error + (('t, 'd, 'm, 's, 'l) RouteLeg_scheme \<times> ('c, 'r, 'g) LegGeometry_scheme)" where
  "MakeRoute_leg ext facade parameters phantoms path_data reversed_source reversed_target =
     (let leg_geometry = assembleGeometry ext facade path_data (source_phantom phantoms)
                           (target_phantom phantoms) reversed_source reversed_target;
          leg = assembleLeg ext facade path_data leg_geometry (source_phantom phantoms)
                  (target_phantom phantoms) reversed_target (RouteParameters.steps parameters)
      in if RouteParameters.steps parameters
         then (let steps0 = assembleSteps ext facade path_data leg_geometry
                              (source_phantom phantoms) (target_phantom phantoms)
                              reversed_source reversed_target
               in apply_overrides facade phantoms reversed_target
                    (post_process ext phantoms steps0 (leg, leg_geometry)))
         else Inr (leg, leg_geometry))"

text \<open>
  Lines 132 to 299: the loop over \<open>idx\<close> below \<open>segment_end_coordinates.size()\<close>. The
  three other vectors are indexed unchecked.
\<close>

primrec MakeRoute_legs ::
  "('t, 'd, 'o, 'c, 'r, 'm, 's, 'l, 'g, 'p, 'q, 'pd, 'rt, 'f, 'x) Collaborators_scheme \<Rightarrow>
   ('t, 'd, 'o, 'c, 'f) BaseDataFacade_scheme \<Rightarrow> 'y RouteParameters_scheme \<Rightarrow>
   ('p, 'q) PhantomNodes_scheme list \<Rightarrow> 'pd list list \<Rightarrow> bool list \<Rightarrow> bool list \<Rightarrow> nat list \<Rightarrow>
   ('t, 'd, 'm, 's, 'l) RouteLeg_scheme list \<times> ('c, 'r, 'g) LegGeometry_scheme list \<Rightarrow>
   error + (('t, 'd, 'm, 's, 'l) RouteLeg_scheme list \<times> ('c, 'r, 'g) LegGeometry_scheme list)" where
  "MakeRoute_legs ext facade parameters segment_end_coordinates unpacked_path_segments
     source_traversed_in_reverse target_traversed_in_reverse [] st = Inr st"
| "MakeRoute_legs ext facade parameters segment_end_coordinates unpacked_path_segments
     source_traversed_in_reverse target_traversed_in_reverse (idx # rest) st =
     (if idx < length unpacked_path_segments \<and> idx < length source_traversed_in_reverse \<and>
         idx < length target_traversed_in_reverse
      then case MakeRoute_leg ext facade parameters (segment_end_coordinates ! idx)
                  (unpacked_path_segments ! idx) (source_traversed_in_reverse ! idx)
                  (target_traversed_in_reverse ! idx) of
             Inl e \<Rightarrow> Inl e
           | Inr (leg, leg_geometry) \<Rightarrow>
               MakeRoute_legs ext facade parameters segment_end_coordinates
                 unpacked_path_segments source_traversed_in_reverse target_traversed_in_reverse
                 rest (fst st @ [leg], snd st @ [leg_geometry])
      else Inl OutOfRange)"

text \<open>
  Lines 71 to 85: the encoding chosen by \<open>parameters.geometries\<close>. The assertion of
  line 83 holds for each of the three formats, as do those of lines 307 and 340.
\<close>

definition MakeGeometry ::
  "('t, 'd, 'o, 'c, 'r, 'm, 's, 'l, 'g, 'p, 'q, 'pd, 'rt, 'f, 'x) Collaborators_scheme \<Rightarrow>
   'y RouteParameters_scheme \<Rightarrow> 'c list \<Rightarrow> 'r Value" where
  "MakeGeometry ext parameters coords =
     (if geometries parameters = Polyline then makePolyline_100000 ext coords
      else if geometries parameters = Polyline6 then makePolyline_1000000 ext coords
      else makeGeoJSONGeometry ext coords)"

text \<open>
  Lines 314 to 345: one encoded geometry for each step of each leg, in order. The lambda
  of lines 325 to 344 makes the same choice as \<open>MakeGeometry\<close>, on the locations of the
  step. \<open>transform\<close> is \<open>std::transform\<close> into a back inserter, stopping where the
  source's behaviour is undefined.
\<close>

primrec transform :: "('a \<Rightarrow> error + 'b) \<Rightarrow> 'a list \<Rightarrow> error + 'b list" where
  "transform f [] = Inr []"
| "transform f (x # xs) =
     (case f x of
        Inl e \<Rightarrow> Inl e
      | Inr y \<Rightarrow> (case transform f xs of Inl e \<Rightarrow> Inl e | Inr ys \<Rightarrow> Inr (y # ys)))"

definition step_geometry ::
  "('t, 'd, 'o, 'c, 'r, 'm, 's, 'l, 'g, 'p, 'q, 'pd, 'rt, 'f, 'x) Collaborators_scheme \<Rightarrow>
   'y RouteParameters_scheme \<Rightarrow> ('c, 'r, 'g) LegGeometry_scheme \<Rightarrow>
   ('t, 'd, 'm, 's) RouteStep_scheme \<Rightarrow> error + 'r Value" where
  "step_geometry ext parameters leg_geometry step =
     (case geometry_slice (locations leg_geometry) (geometry_begin step) (geometry_end step) of
        Inl e \<Rightarrow> Inl e
      | Inr step_locs \<Rightarrow> Inr (MakeGeometry ext parameters step_locs))"

primrec MakeRoute_step_geometries ::
  "('t, 'd, 'o, 'c, 'r, 'm, 's, 'l, 'g, 'p, 'q, 'pd, 'rt, 'f, 'x) Collaborators_scheme \<Rightarrow>
   'y RouteParameters_scheme \<Rightarrow> ('t, 'd, 'm, 's, 'l) RouteLeg_scheme list \<Rightarrow>
   ('c, 'r, 'g) LegGeometry_scheme list \<Rightarrow> nat list \<Rightarrow> 'r Value list \<Rightarrow> error + 'r Value list" where
  "MakeRoute_step_geometries ext parameters legs leg_geometries [] step_geometries =
     Inr step_geometries"
| "MakeRoute_step_geometries ext parameters legs leg_geometries (idx # rest) step_geometries =
     (case transform (step_geometry ext parameters (leg_geometries ! idx)) (steps (legs ! idx)) of
        Inl e \<Rightarrow> Inl e
      | Inr gs \<Rightarrow>
          MakeRoute_step_geometries ext parameters legs leg_geometries rest (step_geometries @ gs))"

text \<open>Lines 87 to 98.\<close>

definition GetAnnotations ::
  "('c, 'r, 'g) LegGeometry_scheme \<Rightarrow> ('r Annotation \<Rightarrow> 'r Value) \<Rightarrow> 'r Value" where
  "GetAnnotations leg Get = Array (map Get (annotations leg))"

text \<open>Lines 351 to 356.\<close>

definition requested_annotations :: "'y RouteParameters_scheme \<Rightarrow> AnnotationsType" where
  "requested_annotations parameters =
     (if RouteParameters.annotations parameters = True \<and>
         annotations_type parameters = AnnotationsType_None
      then All
      else annotations_type parameters)"

text \<open>
  Lines 362 to 414: the annotation object of one leg. Line 366 tests
  \<open>parameters.annotations_type\<close>, lines 375 to 402 test \<open>requested_annotations\<close>.
\<close>

definition leg_annotation ::
  "('t, 'd, 'o, 'c, 'r, 'm, 's, 'l, 'g, 'p, 'q, 'pd, 'rt, 'f, 'x) Collaborators_scheme \<Rightarrow>
   'y RouteParameters_scheme \<Rightarrow> ('c, 'r, 'g) LegGeometry_scheme \<Rightarrow> 'r Object" where
  "leg_annotation ext parameters leg_geometry =
     (let annotation0 = Map.empty;
          annotation1 =
            (if has_flag (annotations_type parameters) Speed
             then annotation0(''speed'' \<mapsto> GetAnnotations leg_geometry
                    (\<lambda>anno. Number (speed_value ext (distance anno) (duration anno))))
             else annotation0);
          annotation2 =
            (if has_flag (requested_annotations parameters) Duration
             then annotation1(''duration'' \<mapsto> GetAnnotations leg_geometry
                    (\<lambda>anno. Number (duration anno)))
             else annotation1);
          annotation3 =
            (if has_flag (requested_annotations parameters) Distance
             then annotation2(''distance'' \<mapsto> GetAnnotations leg_geometry
                    (\<lambda>anno. Number (distance anno)))
             else annotation2);
          annotation4 =
            (if has_flag (requested_annotations parameters) Weight
             then annotation3(''weight'' \<mapsto> GetAnnotations leg_geometry
                    (\<lambda>anno. Number (weight anno)))
             else annotation3);
          annotation5 =
            (if has_flag (requested_annotations parameters) Datasources
             then annotation4(''datasources'' \<mapsto> GetAnnotations leg_geometry
                    (\<lambda>anno. Number (double_of_datasource ext (datasource anno))))
             else annotation4);
          annotation6 =
            (if has_flag (requested_annotations parameters) Nodes
             then annotation5(''nodes'' \<mapsto>
                    Array (map (\<lambda>node_id. Number (double_of_uint64 ext node_id))
                             (osm_node_ids leg_geometry)))
             else annotation5)
      in annotation6)"

text \<open>Lines 347 to 416: the vector \<open>annotations\<close>.\<close>

definition MakeRoute_annotations ::
  "('t, 'd, 'o, 'c, 'r, 'm, 's, 'l, 'g, 'p, 'q, 'pd, 'rt, 'f, 'x) Collaborators_scheme \<Rightarrow>
   'y RouteParameters_scheme \<Rightarrow> ('c, 'r, 'g) LegGeometry_scheme list \<Rightarrow> 'r Object list" where
  "MakeRoute_annotations ext parameters leg_geometries =
     (if requested_annotations parameters \<noteq> AnnotationsType_None
      then map (leg_annotation ext parameters) leg_geometries
      else [])"

text \<open>
  \<open>MakeRoute\<close>. Lines 105 to 125 print the path to \<open>std::cout\<close>, which the model leaves
  out; for every path segment they read element 0 of the three other vectors, unchecked.
\<close>

definition MakeRoute ::
  "('t, 'd, 'o, 'c, 'r, 'm, 's, 'l, 'g, 'p, 'q, 'pd, 'rt, 'f, 'x) Collaborators_scheme \<Rightarrow>
   ('t, 'd, 'o, 'c, 'f) BaseDataFacade_scheme \<Rightarrow> 'y RouteParameters_scheme \<Rightarrow>
   ('p, 'q) PhantomNodes_scheme list \<Rightarrow> 'pd list list \<Rightarrow> bool list \<Rightarrow> bool list \<Rightarrow>
   error + 'r Object" where
  "MakeRoute ext facade parameters segment_end_coordinates unpacked_path_segments
     source_traversed_in_reverse target_traversed_in_reverse =
     (if unpacked_path_segments \<noteq> [] \<and>
         (segment_end_coordinates = [] \<or> source_traversed_in_reverse = [] \<or>
          target_traversed_in_reverse = [])
      then Inl OutOfRange
      else case MakeRoute_legs ext facade parameters segment_end_coordinates
                  unpacked_path_segments source_traversed_in_reverse
                  target_traversed_in_reverse [0 ..< length segment_end_coordinates] ([], []) of
             Inl e \<Rightarrow> Inl e
           | Inr (legs, leg_geometries) \<Rightarrow>
               (let route = assembleRoute ext legs;
                    json_overview =
                      (if overview parameters \<noteq> False'
                       then Some (MakeGeometry ext parameters
                              (assembleOverview ext leg_geometries
                                 (overview parameters = Simplified)))
                       else None)
                in case MakeRoute_step_geometries ext parameters legs leg_geometries
                          [0 ..< length legs] [] of
                     Inl e \<Rightarrow> Inl e
                   | Inr step_geometries \<Rightarrow>
                       Inr (makeRoute ext route
                              (makeRouteLegs ext legs step_geometries
                                 (MakeRoute_annotations ext parameters leg_geometries))
                              json_overview (GetWeightName facade))))"

section \<open>The guidance stages as the spec orders them\<close>

text \<open>
  These two definitions follow the words of the spec, sections 4.3 and 4.4, for
  comparison with \<open>MakeRoute_leg\<close>: the assembled steps go through the stages 1 to 7 in the
  order trim short segments, roundabout handling, turn-instruction collapsing, lane-change
  anticipation, intersection construction, short-name suppression, relative-location
  assignment, each on the steps the stage before produced; stage 8, the geometry
  resynchronization, takes the trimmed geometry and the steps of stage 7. The override
  resolver then runs once on the leg, on the steps of stage 7 and the geometry of stage 8.
\<close>

definition spec_stages ::
  "('t, 'd, 'o, 'c, 'r, 'm, 's, 'l, 'g, 'p, 'q, 'pd, 'rt, 'f, 'x) Collaborators_scheme \<Rightarrow>
   ('t, 'd, 'o, 'c, 'f) BaseDataFacade_scheme \<Rightarrow>
   ('p, 'q) PhantomNodes_scheme \<Rightarrow> 'pd list \<Rightarrow> bool \<Rightarrow> bool \<Rightarrow>
   ('t, 'd, 'm, 's, 'l) RouteLeg_scheme \<times> ('c, 'r, 'g) LegGeometry_scheme" where
  "spec_stages ext facade phantoms path_data reversed_source reversed_target =
     (let leg_geometry = assembleGeometry ext facade path_data (source_phantom phantoms)
                           (target_phantom phantoms) reversed_source reversed_target;
          leg = assembleLeg ext facade path_data leg_geometry (source_phantom phantoms)
                  (target_phantom phantoms) reversed_target True;
          steps0 = assembleSteps ext facade path_data leg_geometry (source_phantom phantoms)
                     (target_phantom phantoms) reversed_source reversed_target;
          trimmed = trimShortSegments ext (steps0, leg_geometry);
          steps2 = handleRoundabouts ext (fst trimmed);
          steps3 = collapseTurnInstructions ext steps2;
          steps4 = anticipateLaneChange ext steps3;
          steps5 = buildIntersections ext steps4;
          steps6 = suppressShortNameSegments ext steps5;
          steps7 = assignRelativeLocations ext steps6 (snd trimmed)
                     (source_phantom phantoms) (target_phantom phantoms);
          geometry8 = resyncGeometry ext (snd trimmed) steps7
      in (leg\<lparr>steps := steps7\<rparr>, geometry8))"

definition spec_leg ::
  "('t, 'd, 'o, 'c, 'r, 'm, 's, 'l, 'g, 'p, 'q, 'pd, 'rt, 'f, 'x) Collaborators_scheme \<Rightarrow>
   ('t, 'd, 'o, 'c, 'f) BaseDataFacade_scheme \<Rightarrow>
   ('p, 'q) PhantomNodes_scheme \<Rightarrow> 'pd list \<Rightarrow> bool \<Rightarrow> bool \<Rightarrow>
   error + (('t, 'd, 'm, 's, 'l) RouteLeg_scheme \<times> ('c, 'r, 'g) LegGeometry_scheme)" where
  "spec_leg ext facade phantoms path_data reversed_source reversed_target =
     apply_overrides facade phantoms reversed_target
       (spec_stages ext facade phantoms path_data reversed_source reversed_target)"

section \<open>\<open>MakeResponse\<close> (lines 45 to 67)\<close>

text \<open>
  Modelled from the spec: \<open>InternalRouteResult\<close> and \<open>InternalManyRoutesResult\<close> are
  declared in \<open>engine/internal_route_result.hpp\<close>, which is not among the sources. A raw
  route has a validity flag, here the field \<open>is_valid\<close>, the leg anchors, the path data
  of each leg and the reversal flags of the leg ends.
\<close>

record ('p, 'q, 'pd) InternalRouteResult =
  is_valid :: bool
  segment_end_coordinates :: "('p, 'q) PhantomNodes_scheme list"
  unpacked_path_segments :: "'pd list list"
  source_traversed_in_reverse :: "bool list"
  target_traversed_in_reverse :: "bool list"

record ('p, 'q, 'pd, 'z) InternalManyRoutesResult =
  routes :: "('p, 'q, 'pd, 'z) InternalRouteResult_scheme list"

text \<open>Lines 52 to 61: the loop over the raw routes, appending to \<open>jsRoutes\<close>.\<close>

primrec MakeResponse_routes ::
  "('t, 'd, 'o, 'c, 'r, 'm, 's, 'l, 'g, 'p, 'q, 'pd, 'rt, 'f, 'x) Collaborators_scheme \<Rightarrow>
   ('t, 'd, 'o, 'c, 'f) BaseDataFacade_scheme \<Rightarrow> 'y RouteParameters_scheme \<Rightarrow>
   ('p, 'q, 'pd, 'z) InternalRouteResult_scheme list \<Rightarrow> 'r Value list \<Rightarrow> error + 'r Value list" where
  "MakeResponse_routes ext facade parameters [] jsRoutes = Inr jsRoutes"
| "MakeResponse_routes ext facade parameters (route # rest) jsRoutes =
     (if \<not> is_valid route then MakeResponse_routes ext facade parameters rest jsRoutes
      else case MakeRoute ext facade parameters (segment_end_coordinates route)
                  (unpacked_path_segments route) (source_traversed_in_reverse route)
                  (target_traversed_in_reverse route) of
             Inl e \<Rightarrow> Inl e
           | Inr js \<Rightarrow>
               MakeResponse_routes ext facade parameters rest (jsRoutes @ [Object js]))"

text \<open>
  \<open>MakeResponse\<close> writes three keys of the object \<open>response\<close> it is given. Line 48
  asserts that there is a raw route.
\<close>

definition MakeResponse ::
  "('t, 'd, 'o, 'c, 'r, 'm, 's, 'l, 'g, 'p, 'q, 'pd, 'rt, 'f, 'x) Collaborators_scheme \<Rightarrow>
   ('t, 'd, 'o, 'c, 'f) BaseDataFacade_scheme \<Rightarrow> 'y RouteParameters_scheme \<Rightarrow>
   ('p, 'q, 'pd, 'z, 'w) InternalManyRoutesResult_scheme \<Rightarrow> 'r Object \<Rightarrow> error + 'r Object" where
  "MakeResponse ext facade parameters raw_routes response =
     (if routes raw_routes = [] then Inl AssertionFailed
      else case MakeResponse_routes ext facade parameters (routes raw_routes) [] of
             Inl e \<Rightarrow> Inl e
           | Inr jsRoutes \<Rightarrow>
               Inr (response
                     (''waypoints'' \<mapsto>
                        MakeWaypoints ext (segment_end_coordinates (routes raw_routes ! 0)),
                      ''routes'' \<mapsto> Array jsRoutes,
                      ''code'' \<mapsto> String ''Ok'')))"

section \<open>Example inputs\<close>

text \<open>
  The examples take turn types and direction modifiers as bytes, with \<open>Invalid = 0\<close> and
  \<open>MaxDirectionModifier = 8\<close>, and coordinates as pairs of integers; the coordinate of
  node \<open>500 + k\<close> is \<open>(k, 0)\<close>.

  The short leg has five steps S0 to S4 on the segments 10 to 14 and ends on segment 16.
  For segment 10 the facade has three overrides: one whose \<open>to_node\<close> is not on the
  route, one towards S2 whose via node lies in the geometry of S1, and one towards S1 whose
  via node lies in the geometry of S0. For segment 13 it has an override towards S4 with
  its via node in the geometry of S3.

  The long leg has seven steps on the segments 20 to 26. For segment 20 the facade has
  overrides towards the steps 6, 5 and 4 positions ahead, in this order, each with its
  via node in the geometry of the first step.
\<close>

definition example_step :: "NodeID \<Rightarrow> nat \<Rightarrow> nat \<Rightarrow> (8 word, 8 word, unit) RouteStep" where
  "example_step node b e =
     \<lparr>from_id = node, geometry_begin = b, geometry_end = e,
      maneuver = \<lparr>instruction = \<lparr>type = 3, direction_modifier = 4\<rparr>\<rparr>\<rparr>"

definition example_steps :: "(8 word, 8 word, unit) RouteStep list" where
  "example_steps =
     [example_step 10 0 1, example_step 11 1 2, example_step 12 2 3, example_step 13 3 4,
      example_step 14 4 6]"

definition example_leg :: "(8 word, 8 word, unit, unit) RouteLeg" where
  "example_leg = \<lparr>steps = example_steps\<rparr>"

definition example_geometry :: "(int \<times> int, int) LegGeometry" where
  "example_geometry =
     \<lparr>locations = [(0, 0), (1, 0), (2, 0), (3, 0), (4, 0), (5, 0)],
      annotations = [], osm_node_ids = []\<rparr>"

definition long_steps :: "(8 word, 8 word, unit) RouteStep list" where
  "long_steps =
     [example_step 20 0 1, example_step 21 1 2, example_step 22 2 3, example_step 23 3 4,
      example_step 24 4 5, example_step 25 5 6, example_step 26 6 8]"

definition long_locations :: "(int \<times> int) list" where
  "long_locations = [(0, 0), (1, 0), (2, 0), (3, 0), (4, 0), (5, 0), (6, 0), (7, 0)]"

definition override_off_route :: "(8 word, 8 word) ManeuverOverride" where
  "override_off_route = \<lparr>via_node_id = 501, to_node = 77, override_type = 6, direction = 2\<rparr>"

definition override_to_S2 :: "(8 word, 8 word) ManeuverOverride" where
  "override_to_S2 = \<lparr>via_node_id = 501, to_node = 12, override_type = 7, direction = 8\<rparr>"

definition override_to_S1 :: "(8 word, 8 word) ManeuverOverride" where
  "override_to_S1 = \<lparr>via_node_id = 500, to_node = 11, override_type = 5, direction = 1\<rparr>"

definition override_to_S4 :: "(8 word, 8 word) ManeuverOverride" where
  "override_to_S4 = \<lparr>via_node_id = 503, to_node = 14, override_type = 9, direction = 1\<rparr>"

text \<open>An override from S3 whose via node lies in the geometry of S4, the last step.\<close>

definition override_via_last :: "(8 word, 8 word) ManeuverOverride" where
  "override_via_last = \<lparr>via_node_id = 504, to_node = 14, override_type = 9, direction = 1\<rparr>"

text \<open>An override from S3 towards segment 16, where the short leg ends.\<close>

definition override_to_target :: "(8 word, 8 word) ManeuverOverride" where
  "override_to_target = \<lparr>via_node_id = 503, to_node = 16, override_type = 9, direction = 1\<rparr>"

definition override_gap :: "NodeID \<Rightarrow> (8 word, 8 word) ManeuverOverride" where
  "override_gap node = \<lparr>via_node_id = 500, to_node = node, override_type = 7, direction = 8\<rparr>"

definition example_facade :: "(8 word, 8 word, unit, int \<times> int) BaseDataFacade" where
  "example_facade =
     \<lparr>GetOverridesThatStartAt =
        (\<lambda>node. if node = 10 then [override_off_route, override_to_S2, override_to_S1]
                else if node = 13 then [override_to_S4]
                else if node = 20 then [override_gap 26, override_gap 25, override_gap 24]
                else []),
      GetCoordinateOfNode = (\<lambda>node. (int (unat node) - 500, 0)),
      GetWeightName = ''duration'',
      Invalid = 0,
      MaxDirectionModifier = 8\<rparr>"

definition example_phantoms :: "unit PhantomNodes" where
  "example_phantoms =
     \<lparr>source_phantom = \<lparr>forward_segment_id = \<lparr>id' = 10\<rparr>, reverse_segment_id = \<lparr>id' = 30\<rparr>\<rparr>,
      target_phantom = \<lparr>forward_segment_id = \<lparr>id' = 16\<rparr>, reverse_segment_id = \<lparr>id' = 36\<rparr>\<rparr>\<rparr>"

text \<open>The short leg with the instruction of S2 overridden, and with that of S4 overridden.\<close>

definition example_steps_after :: "(8 word, 8 word, unit) RouteStep list" where
  "example_steps_after =
     example_steps[2 := \<lparr>from_id = 12, geometry_begin = 2, geometry_end = 3,
        maneuver = \<lparr>instruction = \<lparr>type = 7, direction_modifier = 4\<rparr>\<rparr>\<rparr>]"

definition example_steps_S4 :: "(8 word, 8 word, unit) RouteStep list" where
  "example_steps_S4 =
     example_steps[4 := \<lparr>from_id = 14, geometry_begin = 4, geometry_end = 6,
        maneuver = \<lparr>instruction = \<lparr>type = 9, direction_modifier = 1\<rparr>\<rparr>\<rparr>]"

text \<open>The long leg with the instruction of its second step overridden.\<close>

definition long_steps_after :: "(8 word, 8 word, unit) RouteStep list" where
  "long_steps_after =
     long_steps[1 := \<lparr>from_id = 21, geometry_begin = 1, geometry_end = 2,
        maneuver = \<lparr>instruction = \<lparr>type = 7, direction_modifier = 4\<rparr>\<rparr>\<rparr>]"

text \<open>
  Collaborators for the examples. Every guidance stage appends its number to the log that
  the steps carry in their record extension; \<open>trimShortSegments\<close> also appends it to the
  log of the geometry, and \<open>resyncGeometry\<close> appends to the log of the geometry the log
  of the first step it is given, followed by its own number. \<open>assembleGeometry\<close> puts the
  node \<open>n\<close> of the path at \<open>(n, 0)\<close> and \<open>resyncGeometry\<close> moves every location by 10 to
  \<open>(n - 10, 0)\<close>, so that the via nodes of the example facade, at \<open>(1, 0)\<close> and \<open>(3, 0)\<close>,
  are locations of the resynchronized geometry only. Doubles are integers here.
\<close>

definition stage ::
  "nat \<Rightarrow> (8 word, 8 word, unit, nat list) RouteStep_scheme list \<Rightarrow>
   (8 word, 8 word, unit, nat list) RouteStep_scheme list" where
  "stage n = map (RouteStep.more_update (\<lambda>log. log @ [n]))"

definition example_ext ::
  "(8 word, 8 word, unit, int \<times> int, int, unit, nat list, unit, nat list, unit, unit, NodeID, nat,
    unit) Collaborators" where
  "example_ext =
     \<lparr>assembleGeometry = (\<lambda>facade path_data source target reversed_source reversed_target.
        \<lparr>locations = map (\<lambda>node. (int (unat node), 0)) path_data,
         annotations = map (\<lambda>node. \<lparr>distance = 100, duration = 10, weight = 12, datasource = 1\<rparr>)
                         (tl path_data),
         osm_node_ids = map ucast path_data,
         \<dots> = []\<rparr>),
      assembleLeg = (\<lambda>facade path_data leg_geometry source target reversed_target with_steps.
        \<lparr>steps = []\<rparr>),
      assembleSteps = (\<lambda>facade path_data leg_geometry source target reversed_source
          reversed_target.
        map (\<lambda>k. \<lparr>from_id = path_data ! k, geometry_begin = k, geometry_end = Suc k,
                   maneuver = \<lparr>instruction = \<lparr>type = 3, direction_modifier = 4\<rparr>\<rparr>,
                   \<dots> = []\<rparr>)
          [0 ..< length path_data]),
      trimShortSegments = (\<lambda>(route_steps, leg_geometry).
        (stage 1 route_steps, LegGeometry.more_update (\<lambda>log. log @ [1]) leg_geometry)),
      handleRoundabouts = stage 2,
      collapseTurnInstructions = stage 3,
      anticipateLaneChange = stage 4,
      buildIntersections = stage 5,
      suppressShortNameSegments = stage 6,
      assignRelativeLocations = (\<lambda>route_steps leg_geometry source target. stage 7 route_steps),
      resyncGeometry = (\<lambda>leg_geometry route_steps.
        LegGeometry.more_update
          (\<lambda>log. log @ concat (map RouteStep.more (take 1 route_steps)) @ [8])
          (leg_geometry\<lparr>locations := map (\<lambda>c. (fst c - 10, snd c)) (locations leg_geometry)\<rparr>)),
      assembleRoute = length,
      assembleOverview = (\<lambda>leg_geometries use_simplification. concat (map locations leg_geometries)),
      makePolyline_100000 = (\<lambda>coords. Array (String ''polyline'' # map (\<lambda>c. Number (fst c)) coords)),
      makePolyline_1000000 = (\<lambda>coords. Array (String ''polyline6'' # map (\<lambda>c. Number (fst c)) coords)),
      makeGeoJSONGeometry = (\<lambda>coords. Array (map (\<lambda>c. Array [Number (fst c), Number (snd c)]) coords)),
      makeRouteLegs = (\<lambda>legs step_geometries annotations.
        Array [Array step_geometries, Array (map Object annotations)]),
      makeRoute = (\<lambda>route legs geometry weight_name.
        [''legs'' \<mapsto> legs, ''weight_name'' \<mapsto> String weight_name,
         ''geometry'' \<mapsto> (case geometry of None \<Rightarrow> JNull | Some g \<Rightarrow> g)]),
      MakeWaypoints = (\<lambda>segment_end_coordinates.
        Array (map (\<lambda>phantoms. Number (uint (id' (forward_segment_id (source_phantom phantoms)))))
                 segment_end_coordinates)),
      speed_value = (\<lambda>distance duration. distance div duration),
      double_of_datasource = uint,
      double_of_uint64 = uint\<rparr>"

definition example_parameters :: RouteParameters where
  "example_parameters =
     \<lparr>geometries = GeoJSON, overview = Full, steps = True, annotations = True,
      annotations_type = AnnotationsType_None\<rparr>"

text \<open>
  The legs over the paths 10, 11, 12 and 10, 13, 14, as \<open>example_ext\<close> and the example
  facade make them: every step has the log of the stages 1 to 7, the geometry has the log
  of \<open>trimShortSegments\<close> followed by the log that \<open>resyncGeometry\<close> saw and its own number
  8, and the last step of each leg has the instruction of an override whose via node is
  a location of the resynchronized geometry.
\<close>

definition logged_step ::
  "NodeID \<Rightarrow> nat \<Rightarrow> 8 word \<Rightarrow> 8 word \<Rightarrow> (8 word, 8 word, unit, nat list) RouteStep_scheme" where
  "logged_step node k t d =
     \<lparr>from_id = node, geometry_begin = k, geometry_end = Suc k,
      maneuver = \<lparr>instruction = \<lparr>type = t, direction_modifier = d\<rparr>\<rparr>,
      \<dots> = [1, 2, 3, 4, 5, 6, 7]\<rparr>"

definition logged_legs :: "(8 word, 8 word, unit, nat list, unit) RouteLeg_scheme list" where
  "logged_legs =
     [\<lparr>steps = [logged_step 10 0 3 4, logged_step 11 1 3 4, logged_step 12 2 7 4]\<rparr>,
      \<lparr>steps = [logged_step 10 0 3 4, logged_step 13 1 3 4, logged_step 14 2 9 1]\<rparr>]"

definition logged_geometries :: "(int \<times> int, int, nat list) LegGeometry_scheme list" where
  "logged_geometries =
     [\<lparr>locations = [(0, 0), (1, 0), (2, 0)],
       annotations = [\<lparr>distance = 100, duration = 10, weight = 12, datasource = 1\<rparr>,
                      \<lparr>distance = 100, duration = 10, weight = 12, datasource = 1\<rparr>],
       osm_node_ids = [10, 11, 12],
       \<dots> = [1, 1, 2, 3, 4, 5, 6, 7, 8]\<rparr>,
      \<lparr>locations = [(0, 0), (3, 0), (4, 0)],
       annotations = [\<lparr>distance = 100, duration = 10, weight = 12, datasource = 1\<rparr>,
                      \<lparr>distance = 100, duration = 10, weight = 12, datasource = 1\<rparr>],
       osm_node_ids = [10, 13, 14],
       \<dots> = [1, 1, 2, 3, 4, 5, 6, 7, 8]\<rparr>]"

text \<open>
  Three raw routes: the first is not valid and starts on segment 40, the two others are
  valid and start on segment 10.
\<close>

definition invalid_route :: "(unit, unit, NodeID) InternalRouteResult" where
  "invalid_route =
     \<lparr>is_valid = False,
      segment_end_coordinates =
        [\<lparr>source_phantom = \<lparr>forward_segment_id = \<lparr>id' = 40\<rparr>, reverse_segment_id = \<lparr>id' = 50\<rparr>\<rparr>,
          target_phantom = \<lparr>forward_segment_id = \<lparr>id' = 41\<rparr>, reverse_segment_id = \<lparr>id' = 51\<rparr>\<rparr>\<rparr>],
      unpacked_path_segments = [[40, 41]],
      source_traversed_in_reverse = [False],
      target_traversed_in_reverse = [False]\<rparr>"

definition valid_route :: "NodeID list \<Rightarrow> (unit, unit, NodeID) InternalRouteResult" where
  "valid_route path_data =
     \<lparr>is_valid = True,
      segment_end_coordinates = [example_phantoms],
      unpacked_path_segments = [path_data],
      source_traversed_in_reverse = [False],
      target_traversed_in_reverse = [False]\<rparr>"

definition example_raw_routes :: "(unit, unit, NodeID, unit) InternalManyRoutesResult" where
  "example_raw_routes = \<lparr>routes = [invalid_route, valid_route [10, 11, 12], valid_route [10, 13, 14]]\<rparr>"

definition invalid_raw_routes :: "(unit, unit, NodeID, unit) InternalManyRoutesResult" where
  "invalid_raw_routes = \<lparr>routes = [invalid_route]\<rparr>"


section \<open>The override resolver: lemmas\<close>


lemma find_if_eq_last:
  "lst \<notin> set js \<Longrightarrow> (find_if P xs js lst = lst) = (\<forall>j\<in>set js. \<not> P (xs ! j))"
  by (induction js) auto

lemma max_steps_fwd_eq:
  "i \<le> length ss \<Longrightarrow> max_steps_fwd i ss = min (i + 5) (length ss)"
  unfolding max_steps_fwd_def MAX_MANEUVER_DISTANCE_def by arith

lemma override_skipped_iff:
  assumes "i < length ss"
  shows "override_skipped ph rt ov i ss =
           ((\<forall>j. i \<le> j \<and> j < i + 5 \<and> j < length ss \<longrightarrow> from_id (ss ! j) \<noteq> to_node ov) \<and>
            (i + 5 \<le> length ss \<or> target_segment_id ph rt \<noteq> to_node ov))"
proof -
  have m: "max_steps_fwd i ss = min (i + 5) (length ss)"
    using assms by (simp add: max_steps_fwd_eq)
  have "(to_match ov i ss = max_steps_fwd i ss) =
          (\<forall>j\<in>set [i ..< max_steps_fwd i ss]. from_id (ss ! j) \<noteq> to_node ov)"
    unfolding to_match_def by (rule find_if_eq_last) simp
  moreover have "(MAX_MANEUVER_DISTANCE i ss \<ge> 5) = (i + 5 \<le> length ss)"
    using assms by (auto simp: MAX_MANEUVER_DISTANCE_def)
  ultimately show ?thesis
    unfolding override_skipped_def by (auto simp: m)
qed

lemma via_loop_not_done:
  "via_loop F locs ov js ss = Inr (ss', False) \<Longrightarrow> ss' = ss"
  by (induction js) (auto simp: Let_def split: sum.splits bool.splits if_splits)

lemma via_loop_done:
  "via_loop F locs ov js ss = Inr (ss', True) \<Longrightarrow>
     \<exists>t\<in>set js. ss' = (if Suc t < length ss then ss[Suc t := write_step F ov (ss ! Suc t)] else ss)"
  by (induction js) (auto simp: Let_def split: sum.splits bool.splits if_splits)

lemma via_loop_skip_prefix:
  "\<forall>j\<in>set pre. via_match locs (geometry_begin (ss ! j)) (geometry_end (ss ! j))
        (GetCoordinateOfNode F (via_node_id ov)) = Inr False \<Longrightarrow>
   via_loop F locs ov (pre @ rest) ss = via_loop F locs ov rest ss"
  by (induction pre) (auto simp: Let_def)


lemma override_body_not_done:
  "override_body F ph rt locs i ov ss = Inr (ss', False) \<Longrightarrow> ss' = ss"
  by (auto simp: override_body_def split: if_splits dest: via_loop_not_done)

lemma override_body_done:
  "override_body F ph rt locs i ov ss = Inr (ss', True) \<Longrightarrow>
     \<exists>t. ss' = (if Suc t < length ss then ss[Suc t := write_step F ov (ss ! Suc t)] else ss)"
  by (auto simp: override_body_def split: if_splits dest!: via_loop_done)

lemma overrides_loop_Cons:
  "overrides_loop F ph rt locs i (ov # ovs) ss =
     (case override_body F ph rt locs i ov ss of
        Inl e \<Rightarrow> Inl e
      | Inr (s1, d) \<Rightarrow> if d then Inr (s1, True) else overrides_loop F ph rt locs i ovs ss)"
  by (auto split: sum.splits dest: override_body_not_done)

lemma overrides_loop_not_done:
  "overrides_loop F ph rt locs i ovs ss = Inr (ss', False) \<Longrightarrow> ss' = ss"
  by (induction ovs) (auto simp: overrides_loop_Cons simp del: overrides_loop.simps(2)
        split: sum.splits if_splits)

lemma overrides_loop_done:
  "overrides_loop F ph rt locs i ovs ss = Inr (ss', True) \<Longrightarrow>
     \<exists>ov\<in>set ovs. override_body F ph rt locs i ov ss = Inr (ss', True)"
  by (induction ovs) (auto simp: overrides_loop_Cons simp del: overrides_loop.simps(2)
        split: sum.splits if_splits)

lemma overrides_loop_skip_prefix:
  "overrides_loop F ph rt locs i pre ss = Inr (s1, False) \<Longrightarrow>
   overrides_loop F ph rt locs i (pre @ rest) ss = overrides_loop F ph rt locs i rest ss"
  by (induction pre) (auto simp: overrides_loop_Cons simp del: overrides_loop.simps(2)
        split: sum.splits if_splits)

lemma steps_loop_Cons:
  "steps_loop F ph rt locs (i # is) ss =
     (case overrides_loop F ph rt locs i (GetOverridesThatStartAt F (from_id (ss ! i))) ss of
        Inl e \<Rightarrow> Inl e
      | Inr (s1, d) \<Rightarrow> if d then Inr (s1, True) else steps_loop F ph rt locs is ss)"
  by (auto simp: Let_def split: sum.splits dest: overrides_loop_not_done)

lemma steps_loop_not_done:
  "steps_loop F ph rt locs is ss = Inr (ss', False) \<Longrightarrow> ss' = ss"
  by (induction "is") (auto simp: steps_loop_Cons simp del: steps_loop.simps(2)
        split: sum.splits if_splits)

lemma steps_loop_done:
  "steps_loop F ph rt locs is ss = Inr (ss', True) \<Longrightarrow>
     \<exists>i\<in>set is. overrides_loop F ph rt locs i
        (GetOverridesThatStartAt F (from_id (ss ! i))) ss = Inr (ss', True)"
  by (induction "is") (auto simp: steps_loop_Cons simp del: steps_loop.simps(2)
        split: sum.splits if_splits)

lemma steps_loop_skip_prefix:
  "steps_loop F ph rt locs pre ss = Inr (s1, False) \<Longrightarrow>
   steps_loop F ph rt locs (pre @ rest) ss = steps_loop F ph rt locs rest ss"
  by (induction pre) (auto simp: steps_loop_Cons simp del: steps_loop.simps(2)
        split: sum.splits if_splits)


lemma write_step_eq:
  "write_step F ov step =
     step\<lparr>maneuver := (maneuver step)
       \<lparr>instruction := (instruction (maneuver step))
          \<lparr>type := override_type ov,
           direction_modifier :=
             (if direction ov = MaxDirectionModifier F
              then direction_modifier (instruction (maneuver step))
              else direction ov)\<rparr>\<rparr>\<rparr>"
  by (simp add: write_step_def write_instruction_def Let_def)

lemma override_body_window:
  assumes "k < 5" "i + k < length ss" "from_id (ss ! (i + k)) = to_node ov"
  shows "override_body F ph rt locs i ov ss =
           via_loop F locs ov [i ..< min (i + 5) (length ss)] ss"
proof -
  have i: "i < length ss" using assms by simp
  have "\<not> override_skipped ph rt ov i ss"
    unfolding override_skipped_iff [OF i] using assms by auto
  then show ?thesis
    using i by (simp add: override_body_def max_steps_fwd_eq)
qed

lemma override_body_beyond_window:
  assumes "i + 5 \<le> length ss" "\<forall>j<5. from_id (ss ! (i + j)) \<noteq> to_node ov"
  shows "override_body F ph rt locs i ov ss = Inr (ss, False)"
proof -
  have i: "i < length ss" using assms by simp
  have "from_id (ss ! j) \<noteq> to_node ov" if "i \<le> j" "j < i + 5" for j
  proof -
    from that have "j - i < 5" "j = i + (j - i)" by auto
    with assms(2) show ?thesis by metis
  qed
  then have "override_skipped ph rt ov i ss"
    unfolding override_skipped_iff [OF i] using assms(1) by auto
  then show ?thesis by (simp add: override_body_def)
qed

text \<open>
  C2, amended. At step \<open>i\<close>, an override whose \<open>to_node\<close> is the \<open>from_id\<close> of a step \<open>k\<close>
  positions ahead, with \<open>k\<close> at least 5 (so 6 as well) and no match among the current
  step and the four after it, is left: the steps are unchanged and \<open>done\<close> is not set. If
  the matching step is at most 4 positions ahead, the override goes on to the search for
  its via node over the window, which is the current step and up to four steps after it.
\<close>
theorem C2_lookahead_window:
  "(5 \<le> k \<and> i + k < length ss \<and> from_id (ss ! (i + k)) = to_node ov \<and>
    (\<forall>j<5. from_id (ss ! (i + j)) \<noteq> to_node ov) \<longrightarrow>
      override_body F ph rt locs i ov ss = Inr (ss, False)) \<and>
   (k < 5 \<and> i + k < length ss \<and> from_id (ss ! (i + k)) = to_node ov \<longrightarrow>
      override_body F ph rt locs i ov ss =
        via_loop F locs ov [i ..< min (i + 5) (length ss)] ss)"
proof (intro conjI impI)
  assume "5 \<le> k \<and> i + k < length ss \<and> from_id (ss ! (i + k)) = to_node ov \<and>
    (\<forall>j<5. from_id (ss ! (i + j)) \<noteq> to_node ov)"
  then have "i + 5 \<le> length ss" "\<forall>j<5. from_id (ss ! (i + j)) \<noteq> to_node ov" by auto
  then show "override_body F ph rt locs i ov ss = Inr (ss, False)"
    by (rule override_body_beyond_window)
next
  assume "k < 5 \<and> i + k < length ss \<and> from_id (ss ! (i + k)) = to_node ov"
  then show "override_body F ph rt locs i ov ss =
        via_loop F locs ov [i ..< min (i + 5) (length ss)] ss"
    by (auto intro: override_body_window)
qed

text \<open>
  C4. When no step of the lookahead window has the override's \<open>to_node\<close> as its \<open>from_id\<close>,
  the override goes on to the search for its via node exactly when fewer than 5 steps
  remain from the current step and the segment identifier of the target anchor (the
  reverse one if the target is traversed in reverse, the forward one otherwise) is the
  \<open>to_node\<close>; the search then runs over all remaining steps. Otherwise the override is
  left, with the steps unchanged and \<open>done\<close> not set, and the next override is considered:
  if there is none, the loop over the overrides of the step ends with the steps unchanged
  and \<open>done\<close> not set; if \<open>next_ov\<close> is the next one, its body is run on the unchanged
  steps, and the loop fails where that fails, ends with its steps and \<open>done\<close> set where
  it applies, and goes on with the overrides after it otherwise.
\<close>
theorem C4_end_of_route_fallback:
  assumes "i < length ss"
      and "\<forall>j. i \<le> j \<and> j < i + 5 \<and> j < length ss \<longrightarrow> from_id (ss ! j) \<noteq> to_node ov"
  shows "override_body F ph rt locs i ov ss =
           (if length ss - i < 5 \<and>
               (if rt then id' (reverse_segment_id (target_phantom ph))
                else id' (forward_segment_id (target_phantom ph))) = to_node ov
            then via_loop F locs ov [i ..< length ss] ss
            else Inr (ss, False)) \<and>
         (\<not> (length ss - i < 5 \<and>
               (if rt then id' (reverse_segment_id (target_phantom ph))
                else id' (forward_segment_id (target_phantom ph))) = to_node ov) \<longrightarrow>
            overrides_loop F ph rt locs i [ov] ss = Inr (ss, False) \<and>
            overrides_loop F ph rt locs i (ov # next_ov # rest) ss =
              (case override_body F ph rt locs i next_ov ss of
                 Inl e \<Rightarrow> Inl e
               | Inr (ss', done) \<Rightarrow>
                   if done then Inr (ss', True)
                   else overrides_loop F ph rt locs i rest ss))"
proof -
  have sk: "override_skipped ph rt ov i ss =
              (i + 5 \<le> length ss \<or> target_segment_id ph rt \<noteq> to_node ov)"
    unfolding override_skipped_iff [OF assms(1)] using assms(2) by blast
  have t: "target_segment_id ph rt =
             (if rt then id' (reverse_segment_id (target_phantom ph))
              else id' (forward_segment_id (target_phantom ph)))"
    by (simp add: target_segment_id_def)
  have m: "length ss - i < 5 \<Longrightarrow> max_steps_fwd i ss = length ss"
    using assms(1) by (simp add: max_steps_fwd_eq)
  have body: "override_body F ph rt locs i ov ss =
           (if length ss - i < 5 \<and> target_segment_id ph rt = to_node ov
            then via_loop F locs ov [i ..< length ss] ss
            else Inr (ss, False))"
    using m by (auto simp: override_body_def sk)
  have next_ov: "overrides_loop F ph rt locs i [ov] ss = Inr (ss, False) \<and>
            overrides_loop F ph rt locs i (ov # next_ov # rest) ss =
              (case override_body F ph rt locs i next_ov ss of
                 Inl e \<Rightarrow> Inl e
               | Inr (ss', done) \<Rightarrow>
                   if done then Inr (ss', True)
                   else overrides_loop F ph rt locs i rest ss)"
    if left: "override_body F ph rt locs i ov ss = Inr (ss, False)"
  proof
    show "overrides_loop F ph rt locs i [ov] ss = Inr (ss, False)"
      using left by simp
    have "overrides_loop F ph rt locs i (ov # next_ov # rest) ss =
            overrides_loop F ph rt locs i (next_ov # rest) ss"
      using left by simp
    then show "overrides_loop F ph rt locs i (ov # next_ov # rest) ss =
              (case override_body F ph rt locs i next_ov ss of
                 Inl e \<Rightarrow> Inl e
               | Inr (ss', done) \<Rightarrow>
                   if done then Inr (ss', True)
                   else overrides_loop F ph rt locs i rest ss)"
      by (simp only: overrides_loop_Cons)
  qed
  have first: "override_body F ph rt locs i ov ss =
           (if length ss - i < 5 \<and>
               (if rt then id' (reverse_segment_id (target_phantom ph))
                else id' (forward_segment_id (target_phantom ph))) = to_node ov
            then via_loop F locs ov [i ..< length ss] ss
            else Inr (ss, False))"
    using body by (simp only: t)
  have second: "overrides_loop F ph rt locs i [ov] ss = Inr (ss, False) \<and>
            overrides_loop F ph rt locs i (ov # next_ov # rest) ss =
              (case override_body F ph rt locs i next_ov ss of
                 Inl e \<Rightarrow> Inl e
               | Inr (ss', done) \<Rightarrow>
                   if done then Inr (ss', True)
                   else overrides_loop F ph rt locs i rest ss)"
    if "\<not> (length ss - i < 5 \<and>
               (if rt then id' (reverse_segment_id (target_phantom ph))
                else id' (forward_segment_id (target_phantom ph))) = to_node ov)"
  proof -
    from that first have "override_body F ph rt locs i ov ss = Inr (ss, False)"
      by auto
    then show ?thesis by (rule next_ov)
  qed
  show ?thesis using first second by blast
qed

text \<open>
  C5. Let the override pass the test of lines 234 to 246 at step \<open>i\<close>, and let \<open>t\<close> be the
  first step of the window, scanning from \<open>i\<close>, whose geometry range holds the coordinate
  of the via node (the ranges up to \<open>t\<close> being inside the locations, and the override's
  type not \<open>Invalid\<close>, which line 267 asserts). Then the call returns with \<open>done\<close> set:
  if \<open>t\<close> is the last step of the leg, the steps are unchanged; otherwise step \<open>t + 1\<close>
  gets the override's type, and the override's direction unless that is
  \<open>MaxDirectionModifier\<close>, in which case it keeps its own direction modifier.
\<close>
theorem C5_override_written_to_next_step:
  assumes "i \<le> t" and "t < max_steps_fwd i ss"
      and "\<not> override_skipped ph rt ov i ss"
      and "\<forall>j. i \<le> j \<and> j \<le> t \<longrightarrow>
             geometry_begin (ss ! j) \<le> geometry_end (ss ! j) \<and>
             geometry_end (ss ! j) \<le> length locs"
      and "\<forall>j. i \<le> j \<and> j < t \<longrightarrow>
             GetCoordinateOfNode F (via_node_id ov) \<notin>
               set (take (geometry_end (ss ! j) - geometry_begin (ss ! j))
                      (drop (geometry_begin (ss ! j)) locs))"
      and "GetCoordinateOfNode F (via_node_id ov) \<in>
               set (take (geometry_end (ss ! t) - geometry_begin (ss ! t))
                      (drop (geometry_begin (ss ! t)) locs))"
      and "override_type ov \<noteq> Invalid F"
  shows "override_body F ph rt locs i ov ss =
           Inr (if Suc t < length ss
                then ss[Suc t := (ss ! Suc t)
                       \<lparr>maneuver := (maneuver (ss ! Suc t))
                          \<lparr>instruction := (instruction (maneuver (ss ! Suc t)))
                             \<lparr>type := override_type ov,
                              direction_modifier :=
                                (if direction ov = MaxDirectionModifier F
                                 then direction_modifier (instruction (maneuver (ss ! Suc t)))
                                 else direction ov)\<rparr>\<rparr>\<rparr>]
                else ss, True)"
proof -
  let ?c = "GetCoordinateOfNode F (via_node_id ov)"
  have "[i ..< max_steps_fwd i ss] = [i ..< t] @ [t ..< max_steps_fwd i ss]"
    using assms(1,2) by (metis le_Suc_ex less_imp_le_nat upt_add_eq_append)
  then have split: "[i ..< max_steps_fwd i ss] = [i ..< t] @ t # [Suc t ..< max_steps_fwd i ss]"
    using assms(2) by (simp add: upt_conv_Cons)
  have pre: "\<forall>j\<in>set [i ..< t]. via_match locs (geometry_begin (ss ! j)) (geometry_end (ss ! j)) ?c
               = Inr False"
    using assms(4,5) by (auto simp: via_match_def geometry_slice_def)
  have at: "via_match locs (geometry_begin (ss ! t)) (geometry_end (ss ! t)) ?c = Inr True"
    using assms(1,4,6) by (auto simp: via_match_def geometry_slice_def)
  have "override_body F ph rt locs i ov ss =
          via_loop F locs ov (t # [Suc t ..< max_steps_fwd i ss]) ss"
    using assms(3) by (simp add: override_body_def split via_loop_skip_prefix [OF pre])
  also have "\<dots> = Inr (if Suc t < length ss then ss[Suc t := write_step F ov (ss ! Suc t)] else ss,
                       True)"
    using at assms(7) by (simp add: Let_def)
  finally show ?thesis by (simp add: write_step_eq)
qed


lemma one_step_written:
  "\<exists>k. \<forall>j. j \<noteq> k \<longrightarrow>
     (if Suc t < length ss then ss[Suc t := x] else ss) ! j = ss ! j"
  by (rule exI [of _ "Suc t"]) simp

lemma override_body_length:
  "override_body F ph rt locs i ov ss = Inr (ss', d) \<Longrightarrow> length ss' = length ss"
  by (cases d) (auto dest: override_body_done override_body_not_done)

lemma steps_loop_result:
  assumes "steps_loop F ph rt locs is ss = Inr (r, d)"
  shows "r = ss \<or> (\<exists>t ov. Suc t < length ss \<and> r = ss[Suc t := write_step F ov (ss ! Suc t)])"
proof (cases d)
  case False
  with assms show ?thesis by (auto dest: steps_loop_not_done)
next
  case True
  with assms have "steps_loop F ph rt locs is ss = Inr (r, True)" by simp
  from steps_loop_done [OF this] obtain i where
    "overrides_loop F ph rt locs i (GetOverridesThatStartAt F (from_id (ss ! i))) ss = Inr (r, True)"
    by blast
  from overrides_loop_done [OF this] obtain ov where
    "override_body F ph rt locs i ov ss = Inr (r, True)"
    by blast
  from override_body_done [OF this] obtain t where
    "r = (if Suc t < length ss then ss[Suc t := write_step F ov (ss ! Suc t)] else ss)"
    by blast
  then show ?thesis by (cases "Suc t < length ss") auto
qed

text \<open>
  C3. Let no override have been applied at the steps before \<open>i\<close> nor by the overrides
  \<open>pre_ovs\<close> that the facade lists before \<open>ov\<close> for step \<open>i\<close>, and let \<open>ov\<close> reach the
  application phase at step \<open>i\<close>, with the steps \<open>ss'\<close> as the outcome (written, or left
  alone at the end of the leg). Then \<open>ss'\<close> is the outcome of the whole resolver, whatever
  overrides the facade lists after \<open>ov\<close> and whatever steps follow \<open>i\<close>: none of them is
  evaluated. And \<open>ss'\<close> differs from the steps of the leg in at most one step.
\<close>
theorem C3_first_application_ends_leg:
  assumes "i < length (steps leg)"
      and "steps_loop F ph rt (locations geom) [0 ..< i] (steps leg) = Inr (s1, False)"
      and "GetOverridesThatStartAt F (from_id (steps leg ! i)) = pre_ovs @ ov # post_ovs"
      and "overrides_loop F ph rt (locations geom) i pre_ovs (steps leg) = Inr (s2, False)"
      and "override_body F ph rt (locations geom) i ov (steps leg) = Inr (ss', True)"
  shows "(\<forall>post_steps. steps_loop F ph rt (locations geom) ([0 ..< i] @ i # post_steps) (steps leg)
            = Inr (ss', True)) \<and>
         apply_overrides F ph rt (leg, geom) = Inr (leg\<lparr>steps := ss'\<rparr>, geom) \<and>
         length ss' = length (steps leg) \<and>
         (\<exists>k. \<forall>j. j \<noteq> k \<longrightarrow> ss' ! j = steps leg ! j)"
proof -
  let ?ss = "steps leg" and ?locs = "locations geom"
  have ovs: "overrides_loop F ph rt ?locs i (GetOverridesThatStartAt F (from_id (?ss ! i))) ?ss
               = Inr (ss', True)"
    unfolding assms(3) overrides_loop_skip_prefix [OF assms(4)]
    by (simp add: overrides_loop_Cons assms(5) del: overrides_loop.simps(2))
  have run: "steps_loop F ph rt ?locs ([0 ..< i] @ i # post_steps) ?ss = Inr (ss', True)"
    for post_steps
    unfolding steps_loop_skip_prefix [OF assms(2)]
    by (simp add: steps_loop_Cons ovs del: steps_loop.simps(2))
  have "[0 ..< length ?ss] = [0 ..< i] @ i # [Suc i ..< length ?ss]"
    using assms(1) by (metis le0 upt_conv_Cons upt_add_eq_append le_Suc_ex less_imp_le_nat)
  then have app: "apply_overrides F ph rt (leg, geom) = Inr (leg\<lparr>steps := ss'\<rparr>, geom)"
    by (simp add: apply_overrides_def run)
  from override_body_done [OF assms(5)]
  obtain t where t: "ss' = (if Suc t < length ?ss then ?ss[Suc t := write_step F ov (?ss ! Suc t)]
                            else ?ss)"
    by blast
  have "\<exists>k. \<forall>j. j \<noteq> k \<longrightarrow> ss' ! j = ?ss ! j"
    unfolding t by (rule one_step_written)
  moreover have "length ss' = length ?ss"
    using assms(5) by (rule override_body_length)
  ultimately show ?thesis using run app by blast
qed

lemma instruction_rewritten_refl:
  "\<exists>t d. s = s\<lparr>maneuver := (maneuver s)
                  \<lparr>instruction := (instruction (maneuver s))
                     \<lparr>type := t, direction_modifier := d\<rparr>\<rparr>\<rparr>"
  by (rule exI [of _ "type (instruction (maneuver s))"],
      rule exI [of _ "direction_modifier (instruction (maneuver s))"]) simp

text \<open>
  C9. When the resolver returns, the leg geometry is the one it was given, the leg has
  changed in its steps only, the number of steps is the same, and there is a position
  \<open>k\<close> such that every step elsewhere is unchanged; every step, the one at \<open>k\<close> too, is
  the original step with at most the type and the direction modifier of its maneuver
  instruction replaced.
\<close>
theorem C9_resolver_frame:
  assumes "apply_overrides F ph rt (leg, geom) = Inr (leg', geom')"
  shows "geom' = geom \<and> leg' = leg\<lparr>steps := steps leg'\<rparr> \<and>
         length (steps leg') = length (steps leg) \<and>
         (\<exists>k. \<forall>j < length (steps leg).
            (j \<noteq> k \<longrightarrow> steps leg' ! j = steps leg ! j) \<and>
            (\<exists>t d. steps leg' ! j = (steps leg ! j)
               \<lparr>maneuver := (maneuver (steps leg ! j))
                  \<lparr>instruction := (instruction (maneuver (steps leg ! j)))
                     \<lparr>type := t, direction_modifier := d\<rparr>\<rparr>\<rparr>))"
proof -
  let ?ss = "steps leg"
  from assms obtain r d where
    run: "steps_loop F ph rt (locations geom) [0 ..< length ?ss] ?ss = Inr (r, d)"
    and leg': "leg' = leg\<lparr>steps := r\<rparr>" and geom': "geom' = geom"
    by (auto simp: apply_overrides_def split: sum.splits)
  from steps_loop_result [OF run]
  have "length r = length ?ss \<and>
         (\<exists>k. \<forall>j < length ?ss.
            (j \<noteq> k \<longrightarrow> r ! j = ?ss ! j) \<and>
            (\<exists>t d. r ! j = (?ss ! j)
               \<lparr>maneuver := (maneuver (?ss ! j))
                  \<lparr>instruction := (instruction (maneuver (?ss ! j)))
                     \<lparr>type := t, direction_modifier := d\<rparr>\<rparr>\<rparr>))"
  proof
    assume "r = ?ss"
    then show ?thesis using instruction_rewritten_refl by blast
  next
    assume "\<exists>t ov. Suc t < length ?ss \<and> r = ?ss[Suc t := write_step F ov (?ss ! Suc t)]"
    then obtain t ov where t: "Suc t < length ?ss"
      and r: "r = ?ss[Suc t := write_step F ov (?ss ! Suc t)]" by blast
    have "(j \<noteq> Suc t \<longrightarrow> r ! j = ?ss ! j) \<and>
            (\<exists>t d. r ! j = (?ss ! j)
               \<lparr>maneuver := (maneuver (?ss ! j))
                  \<lparr>instruction := (instruction (maneuver (?ss ! j)))
                     \<lparr>type := t, direction_modifier := d\<rparr>\<rparr>\<rparr>)" if "j < length ?ss" for j
    proof (cases "j = Suc t")
      case True
      then have rj: "r ! j = write_step F ov (?ss ! j)" using t r by simp
      have "\<exists>t d. r ! j = (?ss ! j)
               \<lparr>maneuver := (maneuver (?ss ! j))
                  \<lparr>instruction := (instruction (maneuver (?ss ! j)))
                     \<lparr>type := t, direction_modifier := d\<rparr>\<rparr>\<rparr>"
        unfolding rj write_step_eq by blast
      then show ?thesis using True by simp
    next
      case False
      then have "r ! j = ?ss ! j" using r by simp
      then show ?thesis using False instruction_rewritten_refl [of "?ss ! j"] by simp
    qed
    then have "\<forall>j < length ?ss.
            (j \<noteq> Suc t \<longrightarrow> r ! j = ?ss ! j) \<and>
            (\<exists>t d. r ! j = (?ss ! j)
               \<lparr>maneuver := (maneuver (?ss ! j))
                  \<lparr>instruction := (instruction (maneuver (?ss ! j)))
                     \<lparr>type := t, direction_modifier := d\<rparr>\<rparr>\<rparr>)"
      by blast
    then have "\<exists>k. \<forall>j < length ?ss.
            (j \<noteq> k \<longrightarrow> r ! j = ?ss ! j) \<and>
            (\<exists>t d. r ! j = (?ss ! j)
               \<lparr>maneuver := (maneuver (?ss ! j))
                  \<lparr>instruction := (instruction (maneuver (?ss ! j)))
                     \<lparr>type := t, direction_modifier := d\<rparr>\<rparr>\<rparr>)"
      by (rule exI [of _ "Suc t"])
    moreover have "length r = length ?ss" using r by simp
    ultimately show ?thesis by blast
  qed
  then show ?thesis using leg' geom' by simp
qed


lemma all_less_upt: "(\<forall>j<n. P j) = (\<forall>j\<in>set [0 ..< n]. P j)"
  by auto

text \<open>
  C2, as stated, fails where the matching step is 5 positions ahead. On the long leg, at its
  first step, the override towards the step 5 positions ahead is left without a search for
  its via node, although that search would have found the via node and written the second
  step.
\<close>
theorem C2_gap_five_not_evaluated:
  "from_id (long_steps ! (0 + 5)) = to_node (override_gap 25) \<and>
   override_body example_facade example_phantoms False long_locations 0 (override_gap 25) long_steps
     = Inr (long_steps, False) \<and>
   via_loop example_facade long_locations (override_gap 25) [0 ..< 5] long_steps
     = Inr (long_steps_after, True)"
  by code_simp

text \<open>
  The long leg at its first step: the overrides towards the steps 6 and 5 positions ahead
  are left, the one towards the step 4 positions ahead is applied.
\<close>
theorem C2_lookahead_window_witness:
  "override_body example_facade example_phantoms False long_locations 0 (override_gap 26) long_steps
     = Inr (long_steps, False) \<and>
   override_body example_facade example_phantoms False long_locations 0 (override_gap 25) long_steps
     = Inr (long_steps, False) \<and>
   override_body example_facade example_phantoms False long_locations 0 (override_gap 24) long_steps
     = Inr (long_steps_after, True)"
proof -
  have far5: "\<forall>j<5. from_id (long_steps ! (0 + j)) \<noteq> to_node (override_gap 25)"
    unfolding all_less_upt by code_simp
  have far6: "\<forall>j<5. from_id (long_steps ! (0 + j)) \<noteq> to_node (override_gap 26)"
    unfolding all_less_upt by code_simp
  have g6: "5 \<le> (6::nat) \<and> 0 + 6 < length long_steps \<and>
            from_id (long_steps ! (0 + 6)) = to_node (override_gap 26)"
    by code_simp
  have g5: "5 \<le> (5::nat) \<and> 0 + 5 < length long_steps \<and>
            from_id (long_steps ! (0 + 5)) = to_node (override_gap 25)"
    by code_simp
  have g4: "(4::nat) < 5 \<and> 0 + 4 < length long_steps \<and>
            from_id (long_steps ! (0 + 4)) = to_node (override_gap 24)"
    by code_simp
  have v: "via_loop example_facade long_locations (override_gap 24)
             [0 ..< min (0 + 5) (length long_steps)] long_steps = Inr (long_steps_after, True)"
    by code_simp
  show ?thesis
    using C2_lookahead_window [of 6 0 long_steps "override_gap 26" example_facade example_phantoms False long_locations]
      C2_lookahead_window [of 5 0 long_steps "override_gap 25" example_facade example_phantoms False long_locations]
      C2_lookahead_window [of 4 0 long_steps "override_gap 24" example_facade example_phantoms False long_locations]
      far5 far6 g6 g5 g4 v by simp
qed


text \<open>
  The short leg: the override towards S2 is applied at S0 after the one that is not on
  the route; the override towards S1 listed after it and the override of S3 are not.
\<close>
theorem C3_first_application_ends_leg_witness:
  "GetOverridesThatStartAt example_facade (from_id (steps example_leg ! 0)) =
     [override_off_route] @ override_to_S2 # [override_to_S1] \<and>
   override_body example_facade example_phantoms False (locations example_geometry) 0
     override_to_S2 (steps example_leg) = Inr (example_steps_after, True) \<and>
   apply_overrides example_facade example_phantoms False (example_leg, example_geometry) =
     Inr (example_leg\<lparr>steps := example_steps_after\<rparr>, example_geometry) \<and>
   length example_steps_after = length (steps example_leg) \<and>
   (\<exists>k. \<forall>j. j \<noteq> k \<longrightarrow> example_steps_after ! j = steps example_leg ! j)"
proof -
  have h1: "0 < length (steps example_leg)"
    by code_simp
  have h2: "steps_loop example_facade example_phantoms False (locations example_geometry) [0 ..< 0]
              (steps example_leg) = Inr (steps example_leg, False)"
    by simp
  have h3: "GetOverridesThatStartAt example_facade (from_id (steps example_leg ! 0)) =
              [override_off_route] @ override_to_S2 # [override_to_S1]"
    by code_simp
  have h4: "overrides_loop example_facade example_phantoms False (locations example_geometry) 0
              [override_off_route] (steps example_leg) = Inr (steps example_leg, False)"
    by code_simp
  have h5: "override_body example_facade example_phantoms False (locations example_geometry) 0
              override_to_S2 (steps example_leg) = Inr (example_steps_after, True)"
    by code_simp
  show ?thesis
    using C3_first_application_ends_leg [OF h1 h2 h3 h4 h5] h3 h5 by simp
qed

text \<open>
  The short leg ends on segment 16. An override towards segment 16 is applied from S3,
  where two steps remain, and left at S0, where five remain: alone it leaves the steps
  unchanged, and before the override towards S2 it lets that one be applied.
\<close>
theorem C4_end_of_route_fallback_witness:
  "override_body example_facade example_phantoms False (locations example_geometry) 3
     override_to_target example_steps = Inr (example_steps_S4, True) \<and>
   override_body example_facade example_phantoms False (locations example_geometry) 0
     override_to_target example_steps = Inr (example_steps, False) \<and>
   overrides_loop example_facade example_phantoms False (locations example_geometry) 0
     [override_to_target] example_steps = Inr (example_steps, False) \<and>
   overrides_loop example_facade example_phantoms False (locations example_geometry) 0
     [override_to_target, override_to_S2, override_to_S1] example_steps =
     Inr (example_steps_after, True)"
proof -
  have l3: "3 < length example_steps" and l0: "0 < length example_steps"
    by code_simp+
  have n3: "\<forall>j. 3 \<le> j \<and> j < 3 + 5 \<and> j < length example_steps \<longrightarrow>
              from_id (example_steps ! j) \<noteq> to_node override_to_target"
  proof -
    have "\<forall>j\<in>set [0 ..< length example_steps].
            from_id (example_steps ! j) \<noteq> to_node override_to_target"
      by code_simp
    then show ?thesis by simp
  qed
  have n0: "\<forall>j. 0 \<le> j \<and> j < 0 + 5 \<and> j < length example_steps \<longrightarrow>
              from_id (example_steps ! j) \<noteq> to_node override_to_target"
  proof -
    have "\<forall>j\<in>set [0 ..< length example_steps].
            from_id (example_steps ! j) \<noteq> to_node override_to_target"
      by code_simp
    then show ?thesis by simp
  qed
  have c3: "length example_steps - 3 < 5 \<and>
            (if False then id' (reverse_segment_id (target_phantom example_phantoms))
             else id' (forward_segment_id (target_phantom example_phantoms))) =
              to_node override_to_target"
    by code_simp
  have c0: "\<not> length example_steps - 0 < 5"
    by code_simp
  have v: "via_loop example_facade (locations example_geometry) override_to_target
             [3 ..< length example_steps] example_steps = Inr (example_steps_S4, True)"
    by code_simp
  have b: "override_body example_facade example_phantoms False (locations example_geometry) 0
             override_to_S2 example_steps = Inr (example_steps_after, True)"
    by code_simp
  show ?thesis
    using C4_end_of_route_fallback [OF l3 n3, of example_facade example_phantoms False
            "locations example_geometry" override_to_S2 "[]"]
      C4_end_of_route_fallback [OF l0 n0, of example_facade example_phantoms False
            "locations example_geometry" override_to_S2 "[override_to_S1]"]
      c3 c0 v b by simp
qed

text \<open>
  The short leg: a via node in the geometry of S1 writes S2, keeping the direction
  modifier since the override's direction is \<open>MaxDirectionModifier\<close>; a via node in the
  geometry of S4, the last step, writes nothing and is no error.
\<close>
theorem C5_override_written_to_next_step_witness:
  "override_body example_facade example_phantoms False (locations example_geometry) 0
     override_to_S2 example_steps = Inr (example_steps_after, True) \<and>
   override_body example_facade example_phantoms False (locations example_geometry) 3
     override_via_last example_steps = Inr (example_steps, True)"
proof -
  let ?locs = "locations example_geometry"
  have a1: "(0::nat) \<le> 1" "1 < max_steps_fwd 0 example_steps"
       "\<not> override_skipped example_phantoms False override_to_S2 0 example_steps"
       "override_type override_to_S2 \<noteq> Invalid example_facade"
    by code_simp+
  have a2: "\<forall>j. 0 \<le> j \<and> j \<le> 1 \<longrightarrow>
             geometry_begin (example_steps ! j) \<le> geometry_end (example_steps ! j) \<and>
             geometry_end (example_steps ! j) \<le> length ?locs"
  proof -
    have "\<forall>j\<in>set [0 ..< 2]. geometry_begin (example_steps ! j) \<le> geometry_end (example_steps ! j) \<and>
             geometry_end (example_steps ! j) \<le> length ?locs"
      by code_simp
    then show ?thesis by simp
  qed
  have a3: "\<forall>j. 0 \<le> j \<and> j < 1 \<longrightarrow>
             GetCoordinateOfNode example_facade (via_node_id override_to_S2) \<notin>
               set (take (geometry_end (example_steps ! j) - geometry_begin (example_steps ! j))
                      (drop (geometry_begin (example_steps ! j)) ?locs))"
  proof -
    have "\<forall>j\<in>set [0 ..< 1].
             GetCoordinateOfNode example_facade (via_node_id override_to_S2) \<notin>
               set (take (geometry_end (example_steps ! j) - geometry_begin (example_steps ! j))
                      (drop (geometry_begin (example_steps ! j)) ?locs))"
      by code_simp
    then show ?thesis by simp
  qed
  have a4: "GetCoordinateOfNode example_facade (via_node_id override_to_S2) \<in>
               set (take (geometry_end (example_steps ! 1) - geometry_begin (example_steps ! 1))
                      (drop (geometry_begin (example_steps ! 1)) ?locs))"
    by code_simp
  have r1: "(if Suc 1 < length example_steps
                then example_steps[Suc 1 := (example_steps ! Suc 1)
                       \<lparr>maneuver := (maneuver (example_steps ! Suc 1))
                          \<lparr>instruction := (instruction (maneuver (example_steps ! Suc 1)))
                             \<lparr>type := override_type override_to_S2,
                              direction_modifier :=
                                (if direction override_to_S2 = MaxDirectionModifier example_facade
                                 then direction_modifier (instruction (maneuver (example_steps ! Suc 1)))
                                 else direction override_to_S2)\<rparr>\<rparr>\<rparr>]
                else example_steps) = example_steps_after"
    by code_simp
  have b1: "(3::nat) \<le> 4" "4 < max_steps_fwd 3 example_steps"
       "\<not> override_skipped example_phantoms False override_via_last 3 example_steps"
       "override_type override_via_last \<noteq> Invalid example_facade"
    by code_simp+
  have b2: "\<forall>j. 3 \<le> j \<and> j \<le> 4 \<longrightarrow>
             geometry_begin (example_steps ! j) \<le> geometry_end (example_steps ! j) \<and>
             geometry_end (example_steps ! j) \<le> length ?locs"
  proof -
    have "\<forall>j\<in>set [0 ..< 5]. geometry_begin (example_steps ! j) \<le> geometry_end (example_steps ! j) \<and>
             geometry_end (example_steps ! j) \<le> length ?locs"
      by code_simp
    then show ?thesis by simp
  qed
  have b3: "\<forall>j. 3 \<le> j \<and> j < 4 \<longrightarrow>
             GetCoordinateOfNode example_facade (via_node_id override_via_last) \<notin>
               set (take (geometry_end (example_steps ! j) - geometry_begin (example_steps ! j))
                      (drop (geometry_begin (example_steps ! j)) ?locs))"
  proof -
    have "\<forall>j\<in>set [3 ..< 4].
             GetCoordinateOfNode example_facade (via_node_id override_via_last) \<notin>
               set (take (geometry_end (example_steps ! j) - geometry_begin (example_steps ! j))
                      (drop (geometry_begin (example_steps ! j)) ?locs))"
      by code_simp
    then show ?thesis by (simp only: set_upt Ball_def atLeastLessThan_iff)
  qed
  have b4: "GetCoordinateOfNode example_facade (via_node_id override_via_last) \<in>
               set (take (geometry_end (example_steps ! 4) - geometry_begin (example_steps ! 4))
                      (drop (geometry_begin (example_steps ! 4)) ?locs))"
    by code_simp
  have r2: "\<not> Suc 4 < length example_steps"
    by code_simp
  show ?thesis
    using C5_override_written_to_next_step [OF a1(1,2,3) a2 a3 a4 a1(4)]
      C5_override_written_to_next_step [OF b1(1,2,3) b2 b3 b4 b1(4)] r1 r2
    by simp
qed

text \<open>The short leg: the geometry is returned as it was, and only S2 is written.\<close>
theorem C9_resolver_frame_witness:
  "apply_overrides example_facade example_phantoms False (example_leg, example_geometry) =
     Inr (example_leg\<lparr>steps := example_steps_after\<rparr>, example_geometry) \<and>
   (\<exists>k. \<forall>j < length (steps example_leg).
      (j \<noteq> k \<longrightarrow> example_steps_after ! j = steps example_leg ! j) \<and>
      (\<exists>t d. example_steps_after ! j = (steps example_leg ! j)
         \<lparr>maneuver := (maneuver (steps example_leg ! j))
            \<lparr>instruction := (instruction (maneuver (steps example_leg ! j)))
               \<lparr>type := t, direction_modifier := d\<rparr>\<rparr>\<rparr>))"
proof -
  have run: "apply_overrides example_facade example_phantoms False (example_leg, example_geometry) =
     Inr (example_leg\<lparr>steps := example_steps_after\<rparr>, example_geometry)"
    by code_simp
  show ?thesis
    using C9_resolver_frame [OF run] run by simp
qed


section \<open>Annotations\<close>

lemma has_flag_All:
  "has_flag All Speed" "has_flag All Duration" "has_flag All Distance" "has_flag All Weight"
  "has_flag All Datasources" "has_flag All Nodes"
  by (simp_all add: has_flag_def All_def Speed_def Duration_def Distance_def Weight_def
        Datasources_def Nodes_def)

lemma has_flag_None: "\<not> has_flag AnnotationsType_None flag"
  by (simp add: has_flag_def AnnotationsType_None_def)

lemma All_not_None: "All \<noteq> AnnotationsType_None"
  by (simp add: All_def AnnotationsType_None_def Speed_def Duration_def Distance_def Weight_def
        Datasources_def Nodes_def)

text \<open>
  C1. The claim: the configuration with the legacy flag \<open>annotations\<close> set and
  \<open>annotations_type\<close> None gives the same annotations as \<open>annotations_type\<close> All. The code
  at these two configurations, for every leg geometry and all collaborators: the requested
  annotations are All in both, and the keys \<open>duration\<close>, \<open>distance\<close>, \<open>weight\<close>,
  \<open>datasources\<close> and \<open>nodes\<close> have the same contents in both; but the key \<open>speed\<close> is
  absent under the legacy configuration and present under All, since line 366 tests
  \<open>parameters.annotations_type\<close> where the five other tests use \<open>requested_annotations\<close>.
\<close>
theorem C1_legacy_annotations_omit_speed:
  "requested_annotations (parameters\<lparr>RouteParameters.annotations := True,
       annotations_type := AnnotationsType_None\<rparr>) =
     requested_annotations (parameters\<lparr>annotations_type := All\<rparr>) \<and>
   map (\<lambda>annotation. annotation ''speed'')
     (MakeRoute_annotations ext
        (parameters\<lparr>RouteParameters.annotations := True,
                     annotations_type := AnnotationsType_None\<rparr>) [leg_geometry]) = [None] \<and>
   map (\<lambda>annotation. annotation ''speed'')
     (MakeRoute_annotations ext (parameters\<lparr>annotations_type := All\<rparr>) [leg_geometry]) =
     [Some (GetAnnotations leg_geometry
        (\<lambda>anno. Number (speed_value ext (distance anno) (duration anno))))] \<and>
   map (leg_annotation ext (parameters\<lparr>RouteParameters.annotations := True,
                                        annotations_type := AnnotationsType_None\<rparr>) leg_geometry)
     [''duration'', ''distance'', ''weight'', ''datasources'', ''nodes''] =
   map (leg_annotation ext (parameters\<lparr>annotations_type := All\<rparr>) leg_geometry)
     [''duration'', ''distance'', ''weight'', ''datasources'', ''nodes'']"
  by (simp add: MakeRoute_annotations_def leg_annotation_def requested_annotations_def
        has_flag_All has_flag_None All_not_None Let_def)

section \<open>The order of the guidance stages\<close>

lemma MakeRoute_leg_spec:
  "RouteParameters.steps parameters \<Longrightarrow>
   MakeRoute_leg ext facade parameters phantoms path_data reversed_source reversed_target =
     spec_leg ext facade phantoms path_data reversed_source reversed_target"
  by (simp add: MakeRoute_leg_def post_process_def spec_leg_def spec_stages_def Let_def split_def)

lemma MakeRoute_legs_Inr:
  assumes "\<forall>idx\<in>set idxs. idx < length unpacked \<and> idx < length src \<and> idx < length tgt \<and>
             MakeRoute_leg ext facade parameters (sec ! idx) (unpacked ! idx) (src ! idx)
               (tgt ! idx) = Inr (built idx)"
  shows "MakeRoute_legs ext facade parameters sec unpacked src tgt idxs st =
           Inr (fst st @ map (\<lambda>idx. fst (built idx)) idxs,
                snd st @ map (\<lambda>idx. snd (built idx)) idxs)"
  using assms
proof (induction idxs arbitrary: st)
  case Nil
  then show ?case by simp
next
  case (Cons idx idxs)
  from Cons.prems have here: "idx < length unpacked" "idx < length src" "idx < length tgt"
      "MakeRoute_leg ext facade parameters (sec ! idx) (unpacked ! idx) (src ! idx)
         (tgt ! idx) = Inr (fst (built idx), snd (built idx))"
    by simp_all
  from Cons.prems have rest:
    "\<forall>idx\<in>set idxs. idx < length unpacked \<and> idx < length src \<and> idx < length tgt \<and>
       MakeRoute_leg ext facade parameters (sec ! idx) (unpacked ! idx) (src ! idx)
         (tgt ! idx) = Inr (built idx)"
    by simp
  show ?case
    using here by (simp add: Cons.IH [OF rest] split_beta)
qed

text \<open>
  C8. Let steps be requested, let the four vectors of the raw route have one entry for
  each leg, and let the resolver return on every leg. Then the loop of \<open>MakeRoute\<close> over
  the legs returns, for every leg in order, the leg and the geometry that \<open>spec_leg\<close>
  gives for the anchors, the path data and the reversal flags of that leg: the steps after
  the stages 1 to 7 in the spec's order, the geometry after stage 8, and the resolver run
  after both. \<open>MakeRoute\<close> builds the route from these legs and geometries.
\<close>
theorem C8_guidance_stages_in_order:
  assumes "RouteParameters.steps parameters"
      and "length unpacked = length sec"
      and "length src = length sec"
      and "length tgt = length sec"
      and "\<forall>idx < length sec.
             \<not> isl (spec_leg ext facade (sec ! idx) (unpacked ! idx) (src ! idx) (tgt ! idx))"
  shows "MakeRoute_legs ext facade parameters sec unpacked src tgt [0 ..< length sec] ([], []) =
           Inr (map (\<lambda>idx. fst (projr (spec_leg ext facade (sec ! idx) (unpacked ! idx)
                                          (src ! idx) (tgt ! idx)))) [0 ..< length sec],
                map (\<lambda>idx. snd (projr (spec_leg ext facade (sec ! idx) (unpacked ! idx)
                                          (src ! idx) (tgt ! idx)))) [0 ..< length sec]) \<and>
         MakeRoute ext facade parameters sec unpacked src tgt =
           (let legs = map (\<lambda>idx. fst (projr (spec_leg ext facade (sec ! idx) (unpacked ! idx)
                                          (src ! idx) (tgt ! idx)))) [0 ..< length sec];
                leg_geometries =
                       map (\<lambda>idx. snd (projr (spec_leg ext facade (sec ! idx) (unpacked ! idx)
                                          (src ! idx) (tgt ! idx)))) [0 ..< length sec]
            in case MakeRoute_step_geometries ext parameters legs leg_geometries
                      [0 ..< length legs] [] of
                 Inl e \<Rightarrow> Inl e
               | Inr step_geometries \<Rightarrow>
                   Inr (makeRoute ext (assembleRoute ext legs)
                          (makeRouteLegs ext legs step_geometries
                             (MakeRoute_annotations ext parameters leg_geometries))
                          (if overview parameters \<noteq> False'
                           then Some (MakeGeometry ext parameters
                                  (assembleOverview ext leg_geometries
                                     (overview parameters = Simplified)))
                           else None)
                          (GetWeightName facade)))"
proof -
  let ?built = "\<lambda>idx. projr (spec_leg ext facade (sec ! idx) (unpacked ! idx) (src ! idx)
                                (tgt ! idx))"
  have each: "\<forall>idx\<in>set [0 ..< length sec].
                idx < length unpacked \<and> idx < length src \<and> idx < length tgt \<and>
                MakeRoute_leg ext facade parameters (sec ! idx) (unpacked ! idx) (src ! idx)
                  (tgt ! idx) = Inr (?built idx)"
  proof
    fix idx
    assume "idx \<in> set [0 ..< length sec]"
    then have idx: "idx < length sec" by simp
    with assms(5) have
      "\<not> isl (spec_leg ext facade (sec ! idx) (unpacked ! idx) (src ! idx) (tgt ! idx))"
      by blast
    then have "spec_leg ext facade (sec ! idx) (unpacked ! idx) (src ! idx) (tgt ! idx) =
                 Inr (?built idx)"
      by simp
    then show "idx < length unpacked \<and> idx < length src \<and> idx < length tgt \<and>
                MakeRoute_leg ext facade parameters (sec ! idx) (unpacked ! idx) (src ! idx)
                  (tgt ! idx) = Inr (?built idx)"
      using idx assms(2,3,4) by (simp add: MakeRoute_leg_spec [OF assms(1)])
  qed
  have legs: "MakeRoute_legs ext facade parameters sec unpacked src tgt [0 ..< length sec]
                ([], []) =
              Inr (map (\<lambda>idx. fst (?built idx)) [0 ..< length sec],
                   map (\<lambda>idx. snd (?built idx)) [0 ..< length sec])"
    using MakeRoute_legs_Inr [OF each, of "([], [])"] by simp
  have printed: "(unpacked \<noteq> [] \<and> (sec = [] \<or> src = [] \<or> tgt = [])) = False"
    using assms(2,3,4) by auto
  have route: "MakeRoute ext facade parameters sec unpacked src tgt =
           (let legs = map (\<lambda>idx. fst (?built idx)) [0 ..< length sec];
                leg_geometries = map (\<lambda>idx. snd (?built idx)) [0 ..< length sec]
            in case MakeRoute_step_geometries ext parameters legs leg_geometries
                      [0 ..< length legs] [] of
                 Inl e \<Rightarrow> Inl e
               | Inr step_geometries \<Rightarrow>
                   Inr (makeRoute ext (assembleRoute ext legs)
                          (makeRouteLegs ext legs step_geometries
                             (MakeRoute_annotations ext parameters leg_geometries))
                          (if overview parameters \<noteq> False'
                           then Some (MakeGeometry ext parameters
                                  (assembleOverview ext leg_geometries
                                     (overview parameters = Simplified)))
                           else None)
                          (GetWeightName facade)))"
    unfolding MakeRoute_def printed if_False legs by (simp add: Let_def)
  show ?thesis using legs route by (rule conjI)
qed

text \<open>
  A route of two legs with stages that log their number. In each leg the override is
  applied on the logged steps, and its via node is found in the geometry only as
  \<open>resyncGeometry\<close> returns it: it is no location of the geometry as assembled.
\<close>
theorem C8_guidance_stages_in_order_witness:
  "RouteParameters.steps example_parameters \<and>
   MakeRoute_legs example_ext example_facade example_parameters
     [example_phantoms, example_phantoms] [[10, 11, 12], [10, 13, 14]]
     [False, False] [False, False] [0 ..< 2] ([], []) =
     Inr (logged_legs, logged_geometries) \<and>
   GetCoordinateOfNode example_facade (via_node_id override_to_S2) \<notin>
     set (locations (assembleGeometry example_ext example_facade [10, 11, 12]
            (source_phantom example_phantoms) (target_phantom example_phantoms) False False))"
proof -
  let ?sec = "[example_phantoms, example_phantoms]"
  let ?unpacked = "[[10, 11, 12], [10, 13, 14 :: NodeID]]"
  let ?flags = "[False, False]"
  have h: "RouteParameters.steps example_parameters"
    by code_simp
  have l: "length ?unpacked = length ?sec" "length ?flags = length ?sec"
    by simp_all
  have r: "\<forall>idx < length ?sec.
             \<not> isl (spec_leg example_ext example_facade (?sec ! idx) (?unpacked ! idx)
                      (?flags ! idx) (?flags ! idx))"
    unfolding all_less_upt by code_simp
  have legs: "map (\<lambda>idx. fst (projr (spec_leg example_ext example_facade (?sec ! idx)
                         (?unpacked ! idx) (?flags ! idx) (?flags ! idx)))) [0 ..< 2] =
              logged_legs"
    by code_simp
  have geometries: "map (\<lambda>idx. snd (projr (spec_leg example_ext example_facade (?sec ! idx)
                         (?unpacked ! idx) (?flags ! idx) (?flags ! idx)))) [0 ..< 2] =
              logged_geometries"
    by code_simp
  have two: "length ?sec = 2"
    by simp
  from C8_guidance_stages_in_order [OF h l(1) l(2) l(2) r]
  have "MakeRoute_legs example_ext example_facade example_parameters ?sec ?unpacked ?flags ?flags
          [0 ..< length ?sec] ([], []) =
        Inr (map (\<lambda>idx. fst (projr (spec_leg example_ext example_facade (?sec ! idx)
                         (?unpacked ! idx) (?flags ! idx) (?flags ! idx)))) [0 ..< length ?sec],
             map (\<lambda>idx. snd (projr (spec_leg example_ext example_facade (?sec ! idx)
                         (?unpacked ! idx) (?flags ! idx) (?flags ! idx)))) [0 ..< length ?sec])"
    by (rule conjunct1)
  then have "MakeRoute_legs example_ext example_facade example_parameters ?sec ?unpacked ?flags
          ?flags [0 ..< 2] ([], []) =
        Inr (map (\<lambda>idx. fst (projr (spec_leg example_ext example_facade (?sec ! idx)
                         (?unpacked ! idx) (?flags ! idx) (?flags ! idx)))) [0 ..< 2],
             map (\<lambda>idx. snd (projr (spec_leg example_ext example_facade (?sec ! idx)
                         (?unpacked ! idx) (?flags ! idx) (?flags ! idx)))) [0 ..< 2])"
    by (simp only: two)
  then have "MakeRoute_legs example_ext example_facade example_parameters ?sec ?unpacked ?flags
          ?flags [0 ..< 2] ([], []) = Inr (logged_legs, logged_geometries)"
    by (simp only: legs geometries)
  moreover have "GetCoordinateOfNode example_facade (via_node_id override_to_S2) \<notin>
     set (locations (assembleGeometry example_ext example_facade [10, 11, 12]
            (source_phantom example_phantoms) (target_phantom example_phantoms) False False))"
    by code_simp
  ultimately show ?thesis using h by blast
qed

section \<open>MakeResponse\<close>

lemma MakeResponse_routes_Inr:
  assumes "\<forall>r\<in>set rs. is_valid r \<longrightarrow>
             \<not> isl (MakeRoute ext facade parameters (segment_end_coordinates r)
                      (unpacked_path_segments r) (source_traversed_in_reverse r)
                      (target_traversed_in_reverse r))"
  shows "MakeResponse_routes ext facade parameters rs jsRoutes =
           Inr (jsRoutes @
                map (\<lambda>r. Object (projr (MakeRoute ext facade parameters (segment_end_coordinates r)
                      (unpacked_path_segments r) (source_traversed_in_reverse r)
                      (target_traversed_in_reverse r))))
                  (filter is_valid rs))"
  using assms
proof (induction rs arbitrary: jsRoutes)
  case Nil
  then show ?case by simp
next
  case (Cons r rs)
  show ?case
  proof (cases "is_valid r")
    case False
    then show ?thesis using Cons by simp
  next
    case True
    with Cons.prems have
      "\<not> isl (MakeRoute ext facade parameters (segment_end_coordinates r)
               (unpacked_path_segments r) (source_traversed_in_reverse r)
               (target_traversed_in_reverse r))"
      by simp
    then obtain js where
      js: "MakeRoute ext facade parameters (segment_end_coordinates r)
             (unpacked_path_segments r) (source_traversed_in_reverse r)
             (target_traversed_in_reverse r) = Inr js"
      by (cases "MakeRoute ext facade parameters (segment_end_coordinates r)
             (unpacked_path_segments r) (source_traversed_in_reverse r)
             (target_traversed_in_reverse r)") auto
    show ?thesis using True js Cons by simp
  qed
qed

lemma MakeResponse_routes_Inl:
  "MakeResponse_routes ext facade parameters rs jsRoutes = Inl e \<Longrightarrow>
     \<exists>r\<in>set rs. is_valid r \<and>
        MakeRoute ext facade parameters (segment_end_coordinates r)
          (unpacked_path_segments r) (source_traversed_in_reverse r)
          (target_traversed_in_reverse r) = Inl e"
  by (induction rs arbitrary: jsRoutes) (auto split: if_splits sum.splits)


lemma MakeResponse_Inr:
  assumes "routes raw_routes \<noteq> []"
      and "\<forall>r\<in>set (routes raw_routes). is_valid r \<longrightarrow>
             \<not> isl (MakeRoute ext facade parameters (segment_end_coordinates r)
                      (unpacked_path_segments r) (source_traversed_in_reverse r)
                      (target_traversed_in_reverse r))"
  shows "MakeResponse ext facade parameters raw_routes response =
           Inr (response
                 (''waypoints'' \<mapsto>
                    MakeWaypoints ext (segment_end_coordinates (routes raw_routes ! 0)),
                  ''routes'' \<mapsto>
                    Array (map (\<lambda>r. Object (projr (MakeRoute ext facade parameters
                                   (segment_end_coordinates r) (unpacked_path_segments r)
                                   (source_traversed_in_reverse r)
                                   (target_traversed_in_reverse r))))
                             (filter is_valid (routes raw_routes))),
                  ''code'' \<mapsto> String ''Ok''))"
  using assms(1) by (simp add: MakeResponse_def MakeResponse_routes_Inr [OF assms(2)])

text \<open>
  C6. For a collection of raw routes that is not empty, and whose valid routes are
  assembled without error, \<open>MakeResponse\<close> returns a response whose \<open>waypoints\<close> are
  \<open>MakeWaypoints\<close> of the leg anchors of the first raw route, valid or not.
\<close>
theorem C6_waypoints_from_first_route:
  assumes "routes raw_routes \<noteq> []"
      and "\<forall>r\<in>set (routes raw_routes). is_valid r \<longrightarrow>
             \<not> isl (MakeRoute ext facade parameters (segment_end_coordinates r)
                      (unpacked_path_segments r) (source_traversed_in_reverse r)
                      (target_traversed_in_reverse r))"
  shows "\<exists>resp. MakeResponse ext facade parameters raw_routes response = Inr resp \<and>
           resp ''waypoints'' =
             Some (MakeWaypoints ext (segment_end_coordinates (routes raw_routes ! 0)))"
  unfolding MakeResponse_Inr [OF assms] by simp

text \<open>
  C7. For a collection of raw routes that is not empty, and whose valid routes are
  assembled without error, \<open>MakeResponse\<close> returns a response whose \<open>routes\<close> array has
  as many entries as there are valid raw routes, the entry at position \<open>n\<close> being what
  \<open>MakeRoute\<close> builds from the valid raw route at position \<open>n\<close> among the valid ones;
  the raw routes that are not valid are passed over.
\<close>
theorem C7_one_entry_per_valid_route:
  assumes "routes raw_routes \<noteq> []"
      and "\<forall>r\<in>set (routes raw_routes). is_valid r \<longrightarrow>
             \<not> isl (MakeRoute ext facade parameters (segment_end_coordinates r)
                      (unpacked_path_segments r) (source_traversed_in_reverse r)
                      (target_traversed_in_reverse r))"
  shows "\<exists>resp js. MakeResponse ext facade parameters raw_routes response = Inr resp \<and>
           resp ''routes'' = Some (Array (map Object js)) \<and>
           length js = length (filter is_valid (routes raw_routes)) \<and>
           (\<forall>n < length js.
              MakeRoute ext facade parameters
                (segment_end_coordinates (filter is_valid (routes raw_routes) ! n))
                (unpacked_path_segments (filter is_valid (routes raw_routes) ! n))
                (source_traversed_in_reverse (filter is_valid (routes raw_routes) ! n))
                (target_traversed_in_reverse (filter is_valid (routes raw_routes) ! n)) =
              Inr (js ! n))"
proof -
  let ?MR = "\<lambda>r. MakeRoute ext facade parameters (segment_end_coordinates r)
                 (unpacked_path_segments r) (source_traversed_in_reverse r)
                 (target_traversed_in_reverse r)"
  let ?valid = "filter is_valid (routes raw_routes)"
  let ?js = "map (\<lambda>r. projr (?MR r)) ?valid"
  have built: "?MR (?valid ! n) = Inr (?js ! n)" if "n < length ?js" for n
  proof -
    from that have "n < length ?valid" by simp
    from nth_mem [OF this]
    have "?valid ! n \<in> {r \<in> set (routes raw_routes). is_valid r}"
      by (simp only: set_filter)
    with assms(2) have "\<not> isl (?MR (?valid ! n))" by blast
    then show ?thesis using that by simp
  qed
  have "MakeResponse ext facade parameters raw_routes response =
          Inr (response
                 (''waypoints'' \<mapsto>
                    MakeWaypoints ext (segment_end_coordinates (routes raw_routes ! 0)),
                  ''routes'' \<mapsto> Array (map Object ?js),
                  ''code'' \<mapsto> String ''Ok''))"
    unfolding MakeResponse_Inr [OF assms] by (simp add: comp_def)
  moreover have "length ?js = length ?valid" by simp
  ultimately show ?thesis using built
    by (intro exI [of _ "response(''waypoints'' \<mapsto>
                    MakeWaypoints ext (segment_end_coordinates (routes raw_routes ! 0)),
                  ''routes'' \<mapsto> Array (map Object ?js),
                  ''code'' \<mapsto> String ''Ok'')"] exI [of _ ?js]) simp
qed

text \<open>
  C10. For a collection of raw routes that is not empty: every response that
  \<open>MakeResponse\<close> returns has the code \<open>Ok\<close>; when it returns no response, that is the
  error of \<open>MakeRoute\<close> on a valid raw route; and when no raw route is valid, it returns
  a response with an empty \<open>routes\<close> array and the code \<open>Ok\<close>.
\<close>
theorem C10_code_is_always_Ok:
  assumes "routes raw_routes \<noteq> []"
  shows "(\<forall>resp. MakeResponse ext facade parameters raw_routes response = Inr resp \<longrightarrow>
            resp ''code'' = Some (String ''Ok'')) \<and>
         (\<forall>e. MakeResponse ext facade parameters raw_routes response = Inl e \<longrightarrow>
            (\<exists>r\<in>set (routes raw_routes). is_valid r \<and>
               MakeRoute ext facade parameters (segment_end_coordinates r)
                 (unpacked_path_segments r) (source_traversed_in_reverse r)
                 (target_traversed_in_reverse r) = Inl e)) \<and>
         ((\<forall>r\<in>set (routes raw_routes). \<not> is_valid r) \<longrightarrow>
            (\<exists>resp. MakeResponse ext facade parameters raw_routes response = Inr resp \<and>
               resp ''routes'' = Some (Array []) \<and> resp ''code'' = Some (String ''Ok'')))"
proof (intro conjI allI impI)
  fix resp
  assume "MakeResponse ext facade parameters raw_routes response = Inr resp"
  then show "resp ''code'' = Some (String ''Ok'')"
    using assms by (auto simp: MakeResponse_def split: sum.splits)
next
  fix e
  assume "MakeResponse ext facade parameters raw_routes response = Inl e"
  then have "MakeResponse_routes ext facade parameters (routes raw_routes) [] = Inl e"
    using assms by (auto simp: MakeResponse_def split: sum.splits)
  then show "\<exists>r\<in>set (routes raw_routes). is_valid r \<and>
               MakeRoute ext facade parameters (segment_end_coordinates r)
                 (unpacked_path_segments r) (source_traversed_in_reverse r)
                 (target_traversed_in_reverse r) = Inl e"
    by (rule MakeResponse_routes_Inl)
next
  assume inv: "\<forall>r\<in>set (routes raw_routes). \<not> is_valid r"
  then have ok: "\<forall>r\<in>set (routes raw_routes). is_valid r \<longrightarrow>
             \<not> isl (MakeRoute ext facade parameters (segment_end_coordinates r)
                      (unpacked_path_segments r) (source_traversed_in_reverse r)
                      (target_traversed_in_reverse r))"
    by simp
  have "filter is_valid (routes raw_routes) = []"
    using inv by (simp add: filter_empty_conv)
  then show "\<exists>resp. MakeResponse ext facade parameters raw_routes response = Inr resp \<and>
               resp ''routes'' = Some (Array []) \<and> resp ''code'' = Some (String ''Ok'')"
    unfolding MakeResponse_Inr [OF assms ok] by simp
qed


lemma example_routes_assembled:
  "\<forall>r\<in>set (routes example_raw_routes). is_valid r \<longrightarrow>
     \<not> isl (MakeRoute example_ext example_facade example_parameters (segment_end_coordinates r)
              (unpacked_path_segments r) (source_traversed_in_reverse r)
              (target_traversed_in_reverse r))"
  by code_simp

text \<open>
  Three raw routes of which the first is not valid: the waypoints are those of the first.
\<close>
theorem C6_waypoints_from_first_route_witness:
  "routes example_raw_routes \<noteq> [] \<and> \<not> is_valid (routes example_raw_routes ! 0) \<and>
   (\<exists>resp. MakeResponse example_ext example_facade example_parameters example_raw_routes
             Map.empty = Inr resp \<and>
           resp ''waypoints'' = Some (Array [Number 40]))"
proof -
  have h: "routes example_raw_routes \<noteq> []"
    by code_simp
  have i: "\<not> is_valid (routes example_raw_routes ! 0)"
    by code_simp
  have w: "MakeWaypoints example_ext (segment_end_coordinates (routes example_raw_routes ! 0)) =
             Array [Number 40]"
    by (simp add: example_ext_def example_raw_routes_def invalid_route_def)
  show ?thesis
    using C6_waypoints_from_first_route [OF h example_routes_assembled, of Map.empty] h i w
    by simp
qed

text \<open>
  Three raw routes of which two are valid: the array has the two routes, in order.
\<close>
theorem C7_one_entry_per_valid_route_witness:
  "length (routes example_raw_routes) = 3 \<and>
   (\<exists>resp js. MakeResponse example_ext example_facade example_parameters example_raw_routes
                Map.empty = Inr resp \<and>
           resp ''routes'' = Some (Array (map Object js)) \<and>
           length js = 2 \<and>
           MakeRoute example_ext example_facade example_parameters
             [example_phantoms] [[10, 11, 12]] [False] [False] = Inr (js ! 0) \<and>
           MakeRoute example_ext example_facade example_parameters
             [example_phantoms] [[10, 13, 14]] [False] [False] = Inr (js ! 1))"
proof -
  have h: "routes example_raw_routes \<noteq> []"
    by code_simp
  have l: "length (routes example_raw_routes) = 3"
    by code_simp
  have v: "filter is_valid (routes example_raw_routes) =
             [valid_route [10, 11, 12], valid_route [10, 13, 14]]"
    by (simp add: example_raw_routes_def invalid_route_def valid_route_def)
  have f: "segment_end_coordinates (valid_route p) = [example_phantoms]"
          "unpacked_path_segments (valid_route p) = [p]"
          "source_traversed_in_reverse (valid_route p) = [False]"
          "target_traversed_in_reverse (valid_route p) = [False]" for p
    by (simp_all add: valid_route_def)
  from C7_one_entry_per_valid_route [OF h example_routes_assembled, of Map.empty]
  obtain resp js where
    r: "MakeResponse example_ext example_facade example_parameters example_raw_routes
          Map.empty = Inr resp"
       "resp ''routes'' = Some (Array (map Object js))"
       "length js = length (filter is_valid (routes example_raw_routes))"
    and b: "\<forall>n < length js.
              MakeRoute example_ext example_facade example_parameters
                (segment_end_coordinates (filter is_valid (routes example_raw_routes) ! n))
                (unpacked_path_segments (filter is_valid (routes example_raw_routes) ! n))
                (source_traversed_in_reverse (filter is_valid (routes example_raw_routes) ! n))
                (target_traversed_in_reverse (filter is_valid (routes example_raw_routes) ! n)) =
              Inr (js ! n)"
    by blast
  have len: "length js = 2" using r(3) by (simp add: v)
  from b len have "MakeRoute example_ext example_facade example_parameters
             [example_phantoms] [[10, 11, 12]] [False] [False] = Inr (js ! 0)"
    by (auto simp: v f dest: spec [of _ 0])
  moreover from b len have "MakeRoute example_ext example_facade example_parameters
             [example_phantoms] [[10, 13, 14]] [False] [False] = Inr (js ! 1)"
    by (auto simp: v f dest: spec [of _ 1])
  ultimately show ?thesis using l r(1,2) len by blast
qed

text \<open>A single raw route that is not valid: the routes are empty and the code is \<open>Ok\<close>.\<close>
theorem C10_code_is_always_Ok_witness:
  "length (routes invalid_raw_routes) = 1 \<and> \<not> is_valid (routes invalid_raw_routes ! 0) \<and>
   (\<exists>resp. MakeResponse example_ext example_facade example_parameters invalid_raw_routes
             Map.empty = Inr resp \<and>
           resp ''routes'' = Some (Array []) \<and> resp ''code'' = Some (String ''Ok''))"
proof -
  have h: "routes invalid_raw_routes \<noteq> []"
    by code_simp
  have i: "\<forall>r\<in>set (routes invalid_raw_routes). \<not> is_valid r"
    by code_simp
  have l: "length (routes invalid_raw_routes) = 1 \<and> \<not> is_valid (routes invalid_raw_routes ! 0)"
    by code_simp
  show ?thesis
    using C10_code_is_always_Ok [OF h, of example_ext example_facade example_parameters Map.empty]
      i l by blast
qed

end
